theory Spec2Isabelle
  imports Complex_Main
begin

section \<open>JavaScript numbers and values\<close>

text \<open>
  The calculator is written in JavaScript and works on loosely typed inputs
  (text of form fields, numbers, \<open>null\<close>, \<open>undefined\<close>).  A number of the
  language is modelled by \<open>jsnum\<close>: a finite value, \<open>NaN\<close>, or one of the two
  infinities.  Finite arithmetic is exact arithmetic on the reals: rounding,
  overflow and underflow of IEEE doubles are not part of this model, and the
  negative zero is identified with zero.  The special values arise as in the
  language: from a division by zero, from the text \<open>Infinity\<close>, and from
  text that is no number.  The liquidation engine alone does not use this
  arithmetic: whether it returns a price depends on how a result is rounded,
  so it takes its four operations as a parameter, and what is proved of it
  holds for every arithmetic, that of the language included.
\<close>

datatype jsnum = Fin real | NaN | PInf | NInf

fun js_neg :: "jsnum \<Rightarrow> jsnum" where
  "js_neg (Fin a) = Fin (- a)"
| "js_neg NaN = NaN"
| "js_neg PInf = NInf"
| "js_neg NInf = PInf"

fun js_add :: "jsnum \<Rightarrow> jsnum \<Rightarrow> jsnum" where
  "js_add (Fin a) (Fin b) = Fin (a + b)"
| "js_add NaN _ = NaN"
| "js_add _ NaN = NaN"
| "js_add PInf NInf = NaN"
| "js_add NInf PInf = NaN"
| "js_add PInf _ = PInf"
| "js_add _ PInf = PInf"
| "js_add NInf _ = NInf"
| "js_add _ NInf = NInf"

definition js_sub :: "jsnum \<Rightarrow> jsnum \<Rightarrow> jsnum" where
  "js_sub a b = js_add a (js_neg b)"

definition signed_inf :: "real \<Rightarrow> jsnum" where
  "signed_inf s = (if s = 0 then NaN else if 0 < s then PInf else NInf)"

fun js_mul :: "jsnum \<Rightarrow> jsnum \<Rightarrow> jsnum" where
  "js_mul (Fin a) (Fin b) = Fin (a * b)"
| "js_mul NaN _ = NaN"
| "js_mul _ NaN = NaN"
| "js_mul PInf (Fin b) = signed_inf b"
| "js_mul NInf (Fin b) = signed_inf (- b)"
| "js_mul (Fin a) PInf = signed_inf a"
| "js_mul (Fin a) NInf = signed_inf (- a)"
| "js_mul PInf PInf = PInf"
| "js_mul NInf NInf = PInf"
| "js_mul PInf NInf = NInf"
| "js_mul NInf PInf = NInf"

text \<open>
  Division by zero gives an infinity of the sign of the dividend, and \<open>NaN\<close>
  for \<open>0 / 0\<close>; an infinity divided by a finite number keeps or flips its sign
  (the divisor zero counts as positive, there being one zero only).
\<close>

fun js_div :: "jsnum \<Rightarrow> jsnum \<Rightarrow> jsnum" where
  "js_div (Fin a) (Fin b) = (if b = 0 then signed_inf a else Fin (a / b))"
| "js_div NaN _ = NaN"
| "js_div _ NaN = NaN"
| "js_div (Fin a) PInf = Fin 0"
| "js_div (Fin a) NInf = Fin 0"
| "js_div PInf (Fin b) = (if 0 \<le> b then PInf else NInf)"
| "js_div NInf (Fin b) = (if 0 \<le> b then NInf else PInf)"
| "js_div PInf PInf = NaN"
| "js_div PInf NInf = NaN"
| "js_div NInf PInf = NaN"
| "js_div NInf NInf = NaN"

text \<open>Comparisons: every comparison with \<open>NaN\<close> is false.\<close>

fun js_lt :: "jsnum \<Rightarrow> jsnum \<Rightarrow> bool" where
  "js_lt (Fin a) (Fin b) = (a < b)"
| "js_lt NaN _ = False"
| "js_lt _ NaN = False"
| "js_lt _ NInf = False"
| "js_lt PInf _ = False"
| "js_lt NInf _ = True"
| "js_lt _ PInf = True"

definition js_gt :: "jsnum \<Rightarrow> jsnum \<Rightarrow> bool" where
  "js_gt a b = js_lt b a"

fun js_le :: "jsnum \<Rightarrow> jsnum \<Rightarrow> bool" where
  "js_le (Fin a) (Fin b) = (a \<le> b)"
| "js_le NaN _ = False"
| "js_le _ NaN = False"
| "js_le NInf _ = True"
| "js_le _ PInf = True"
| "js_le _ NInf = False"
| "js_le PInf _ = False"

definition js_ge :: "jsnum \<Rightarrow> jsnum \<Rightarrow> bool" where
  "js_ge a b = js_le b a"

fun js_abs :: "jsnum \<Rightarrow> jsnum" where
  "js_abs (Fin a) = Fin \<bar>a\<bar>"
| "js_abs NaN = NaN"
| "js_abs PInf = PInf"
| "js_abs NInf = PInf"

text \<open>The global predicates \<open>isNaN\<close> and \<open>isFinite\<close> on a number.\<close>

fun isNaN :: "jsnum \<Rightarrow> bool" where
  "isNaN NaN = True"
| "isNaN _ = False"

fun isFinite_num :: "jsnum \<Rightarrow> bool" where
  "isFinite_num (Fin a) = True"
| "isFinite_num _ = False"

text \<open>Truthiness of a number, as \<open>x || 0\<close> uses it: zero and \<open>NaN\<close> are falsy.\<close>

fun truthy :: "jsnum \<Rightarrow> bool" where
  "truthy (Fin a) = (a \<noteq> 0)"
| "truthy NaN = False"
| "truthy _ = True"

text \<open>
  The values the engines receive: \<open>undefined\<close>, \<open>null\<close>, a number, or a
  string (of ASCII characters).
\<close>

datatype jsval = JUndefined | JNull | JNum jsnum | JStr string

subsection \<open>Text to number\<close>

text \<open>
  The language has two conversions from text, and the code uses both:
  \<open>parseFloat\<close> reads the longest prefix that is a decimal literal, after
  leading white space, and ignores the rest; the coercion \<open>ToNumber\<close> (used by
  \<open>isFinite\<close>, by the arithmetic operators and by the comparisons) wants the
  whole text, white space at both ends apart, to be a decimal literal or a
  literal in base 16, 8 or 2, and reads the empty text as zero.  The value of
  a literal is its exact value, as the arithmetic is exact.  \<open>scanDecimal\<close>
  gives the value of the longest prefix that is a decimal literal, and the text
  after it.
\<close>

definition isWS :: "char \<Rightarrow> bool" where
  "isWS c = (of_char c \<in> {9, 10, 11, 12, 13, 32 :: nat})"

definition isDigit :: "char \<Rightarrow> bool" where
  "isDigit c = (c \<in> set ''0123456789'')"

definition digitsValue :: "string \<Rightarrow> nat" where
  "digitsValue ds = foldl (\<lambda>n c. 10 * n + (of_char c - 48)) 0 ds"

definition scanExponent :: "string \<Rightarrow> int \<times> string" where
  "scanExponent s =
     (case s of
        [] \<Rightarrow> (0, s)
      | c # r \<Rightarrow>
          if c = CHR ''e'' \<or> c = CHR ''E'' then
            (let neg = (case r of [] \<Rightarrow> False | d # _ \<Rightarrow> d = CHR ''-'');
                 r' = (case r of [] \<Rightarrow> r
                       | d # r2 \<Rightarrow> if d = CHR ''+'' \<or> d = CHR ''-'' then r2 else r);
                 ds = takeWhile isDigit r'
             in if ds = [] then (0, s)
                else (if neg then - int (digitsValue ds) else int (digitsValue ds),
                      dropWhile isDigit r'))
          else (0, s))"

definition scanUnsigned :: "string \<Rightarrow> (jsnum \<times> string) option" where
  "scanUnsigned s =
     (if take 8 s = ''Infinity'' then Some (PInf, drop 8 s)
      else
        let ip = takeWhile isDigit s;
            r1 = dropWhile isDigit s;
            fp = (case r1 of [] \<Rightarrow> []
                  | c # r \<Rightarrow> if c = CHR ''.'' then takeWhile isDigit r else []);
            r2 = (case r1 of [] \<Rightarrow> r1
                  | c # r \<Rightarrow> if c = CHR ''.'' then dropWhile isDigit r else r1)
        in if ip = [] \<and> fp = [] then None
           else
             let m = real (digitsValue ip) + real (digitsValue fp) / 10 ^ length fp;
                 e = fst (scanExponent r2)
             in Some (Fin (if 0 \<le> e then m * 10 ^ nat e else m / 10 ^ nat (- e)),
                      snd (scanExponent r2)))"

definition scanDecimal :: "string \<Rightarrow> (jsnum \<times> string) option" where
  "scanDecimal s =
     (case s of
        [] \<Rightarrow> None
      | c # r \<Rightarrow>
          if c = CHR ''+'' then scanUnsigned r
          else if c = CHR ''-'' then
            (case scanUnsigned r of None \<Rightarrow> None | Some (v, rest) \<Rightarrow> Some (js_neg v, rest))
          else scanUnsigned s)"

definition radixDigit :: "nat \<Rightarrow> char \<Rightarrow> nat option" where
  "radixDigit b c =
     (let n = of_char c;
          d = (if 48 \<le> n \<and> n \<le> 57 then Some (n - 48)
               else if 97 \<le> n \<and> n \<le> 102 then Some (n - 87)
               else if 65 \<le> n \<and> n \<le> 70 then Some (n - 55)
               else None)
      in case d of None \<Rightarrow> None | Some v \<Rightarrow> if v < b then Some v else None)"

definition radixValue :: "nat \<Rightarrow> string \<Rightarrow> nat" where
  "radixValue b ds = foldl (\<lambda>n c. b * n + (case radixDigit b c of None \<Rightarrow> 0 | Some v \<Rightarrow> v)) 0 ds"

definition scanNonDecimal :: "string \<Rightarrow> (nat \<times> string) option" where
  "scanNonDecimal s =
     (case s of
        z # x # r \<Rightarrow>
          if z = CHR ''0'' then
            (let b = (if x = CHR ''x'' \<or> x = CHR ''X'' then 16
                      else if x = CHR ''o'' \<or> x = CHR ''O'' then 8
                      else if x = CHR ''b'' \<or> x = CHR ''B'' then 2 else (0::nat));
                 ds = takeWhile (\<lambda>c. radixDigit b c \<noteq> None) r
             in if b = 0 \<or> ds = [] then None
                else Some (radixValue b ds, dropWhile (\<lambda>c. radixDigit b c \<noteq> None) r))
          else None
      | _ \<Rightarrow> None)"

definition parseFloat_str :: "string \<Rightarrow> jsnum" where
  "parseFloat_str s =
     (case scanDecimal (dropWhile isWS s) of None \<Rightarrow> NaN | Some (v, _) \<Rightarrow> v)"

definition stringToNumber :: "string \<Rightarrow> jsnum" where
  "stringToNumber s =
     (let t = dropWhile isWS s
      in if t = [] then Fin 0
         else case scanNonDecimal t of
                Some (n, rest) \<Rightarrow> if list_all isWS rest then Fin (real n) else NaN
              | None \<Rightarrow>
                  (case scanDecimal t of
                     None \<Rightarrow> NaN
                   | Some (v, rest) \<Rightarrow> if list_all isWS rest then v else NaN))"

text \<open>
  \<open>parseFloat\<close> turns its argument into text first: \<open>null\<close> and \<open>undefined\<close>
  become the words \<open>null\<close> and \<open>undefined\<close>, which are no numbers, and a number
  is printed in a form that reads back as the same number.
\<close>

fun parseFloat :: "jsval \<Rightarrow> jsnum" where
  "parseFloat JUndefined = NaN"
| "parseFloat JNull = NaN"
| "parseFloat (JNum n) = n"
| "parseFloat (JStr s) = parseFloat_str s"

fun toNumber :: "jsval \<Rightarrow> jsnum" where
  "toNumber JUndefined = NaN"
| "toNumber JNull = Fin 0"
| "toNumber (JNum n) = n"
| "toNumber (JStr s) = stringToNumber s"

section \<open>Validator\<close>

text \<open>The functions of \<open>validator.js\<close>, in the order of the file.\<close>

definition isValidNumber :: "jsval \<Rightarrow> bool" where
  "isValidNumber v =
     (v \<noteq> JStr [] \<and> v \<noteq> JNull \<and> v \<noteq> JUndefined
      \<and> \<not> isNaN (parseFloat v) \<and> isFinite_num (toNumber v))"

definition isPositive :: "jsval \<Rightarrow> bool" where
  "isPositive v = (isValidNumber v \<and> js_gt (parseFloat v) (Fin 0))"

definition isNonNegative :: "jsval \<Rightarrow> bool" where
  "isNonNegative v = (isValidNumber v \<and> js_ge (parseFloat v) (Fin 0))"

definition isEmpty :: "jsval \<Rightarrow> bool" where
  "isEmpty v = (v = JStr [] \<or> v = JNull \<or> v = JUndefined)"

definition isExtremeValue :: "jsval \<Rightarrow> bool" where
  "isExtremeValue v =
     (if \<not> isValidNumber v then False
      else let num = parseFloat v
           in \<not> isFinite_num num \<or> isNaN num \<or> js_gt (js_abs num) (Fin (10 ^ 15)))"

definition isInRange :: "jsval \<Rightarrow> jsnum \<Rightarrow> jsnum \<Rightarrow> bool" where
  "isInRange v mn mx =
     (if \<not> isValidNumber v then False
      else let num = parseFloat v in js_ge num mn \<and> js_le num mx)"

text \<open>
  The messages of the program are Chinese text built from the name of a field;
  here a message is a constructor and a field name a constant.  In the order of
  the constructors below: the empty message; ``please enter F''; ``F must be a
  valid number''; ``F must be greater than 0''; ``F must not be negative''; ``F is
  out of the reasonable range''; ``an input is out of the reasonable range'';
  ``enter the leverage or the initial margin''; ``the result is invalid, check the
  inputs''; ``the stop-loss percentage must not exceed 100%''; ``enter the stop-loss
  amount or the stop-loss percentage''; ``no records yet''.
\<close>

datatype field =
    Leverage | OpenPrice | ClosePrice | OpenQuantity | Quantity | Price
  | PlannedLoss | StopLossAmount | StopLossPercent | AddMargin | InitialMargin

datatype message =
    NoMessage
  | PleaseEnter field
  | MustBeValidNumber field
  | MustBePositive field
  | MustNotBeNegative field
  | FieldOutOfRange field
  | InputOutOfRange
  | EnterLeverageOrMargin
  | InvalidResult
  | PercentOver100
  | EnterStopLoss
  | NoRecords

datatype error = Error message

record validation =
  isValid :: bool
  message :: message

fun validateRequiredFields :: "(field \<times> jsval) list \<Rightarrow> validation" where
  "validateRequiredFields [] = \<lparr>isValid = True, message = NoMessage\<rparr>"
| "validateRequiredFields ((fieldName, v) # entries) =
     (if isEmpty v then \<lparr>isValid = False, message = PleaseEnter fieldName\<rparr>
      else if \<not> isValidNumber v then \<lparr>isValid = False, message = MustBeValidNumber fieldName\<rparr>
      else validateRequiredFields entries)"

definition safeParseFloat :: "jsval \<Rightarrow> jsnum \<Rightarrow> jsnum" where
  "safeParseFloat v defaultValue =
     (if \<not> isValidNumber v then defaultValue
      else let parsed = parseFloat v in if isFinite_num parsed then parsed else defaultValue)"

section \<open>Global configuration: the settings\<close>

text \<open>
  The three settings of the configuration object.  Its fourth field, the list
  of listeners, is part of the system state further down.  The direction is
  the stored string, \<open>long\<close> or \<open>short\<close>.
\<close>

record config =
  direction :: string
  makerFeeRate :: jsnum
  takerFeeRate :: jsnum

definition defaultConfig :: config where
  "defaultConfig = \<lparr>direction = ''long'', makerFeeRate = Fin (2 / 10000), takerFeeRate = Fin (5 / 10000)\<rparr>"

definition isLong :: "config \<Rightarrow> bool" where
  "isLong c = (direction c = ''long'')"

definition isShort :: "config \<Rightarrow> bool" where
  "isShort c = (direction c = ''short'')"

definition getTotalFeeRate :: "config \<Rightarrow> jsnum" where
  "getTotalFeeRate c = js_add (makerFeeRate c) (takerFeeRate c)"

definition isFeeRateTooHigh :: "jsnum \<Rightarrow> bool" where
  "isFeeRateTooHigh rate = js_gt rate (Fin (1 / 100))"

section \<open>Profit\<close>

text \<open>
  \<open>calculateProfit\<close> hands its arguments to the two formulas as they came, so
  the arithmetic there coerces with \<open>ToNumber\<close>, not with \<open>parseFloat\<close>.
\<close>

record profit_result =
  profit :: jsnum
  profitRate :: jsnum
  totalFee :: jsnum
  openFee :: jsnum
  closeFee :: jsnum

definition calculateOpenFee :: "config \<Rightarrow> jsval \<Rightarrow> jsval \<Rightarrow> jsnum" where
  "calculateOpenFee c position openPrice =
     js_mul (js_mul (toNumber position) (toNumber openPrice)) (makerFeeRate c)"

definition calculateCloseFee :: "config \<Rightarrow> jsval \<Rightarrow> jsval \<Rightarrow> jsnum" where
  "calculateCloseFee c position closePrice =
     js_mul (js_mul (toNumber position) (toNumber closePrice)) (takerFeeRate c)"

definition calculateLongProfit :: "config \<Rightarrow> jsval \<Rightarrow> jsval \<Rightarrow> jsval \<Rightarrow> profit_result" where
  "calculateLongProfit c position openPrice currentPrice =
     (let priceDiff = js_sub (toNumber currentPrice) (toNumber openPrice);
          grossProfit = js_mul (toNumber position) priceDiff;
          openFee = calculateOpenFee c position openPrice;
          closeFee = calculateCloseFee c position currentPrice;
          totalFee = js_add openFee closeFee;
          netProfit = js_sub grossProfit totalFee;
          cost = js_mul (toNumber position) (toNumber openPrice);
          profitRate = (if js_gt cost (Fin 0) then js_div netProfit cost else Fin 0)
      in \<lparr>profit = netProfit, profitRate = profitRate, totalFee = totalFee,
          openFee = openFee, closeFee = closeFee\<rparr>)"

definition calculateShortProfit :: "config \<Rightarrow> jsval \<Rightarrow> jsval \<Rightarrow> jsval \<Rightarrow> profit_result" where
  "calculateShortProfit c position openPrice currentPrice =
     (let priceDiff = js_sub (toNumber openPrice) (toNumber currentPrice);
          grossProfit = js_mul (toNumber position) priceDiff;
          openFee = calculateOpenFee c position openPrice;
          closeFee = calculateCloseFee c position currentPrice;
          totalFee = js_add openFee closeFee;
          netProfit = js_sub grossProfit totalFee;
          cost = js_mul (toNumber position) (toNumber openPrice);
          profitRate = (if js_gt cost (Fin 0) then js_div netProfit cost else Fin 0)
      in \<lparr>profit = netProfit, profitRate = profitRate, totalFee = totalFee,
          openFee = openFee, closeFee = closeFee\<rparr>)"

definition calculateProfit ::
  "config \<Rightarrow> jsval \<Rightarrow> jsval \<Rightarrow> jsval \<Rightarrow> jsval \<Rightarrow> error + profit_result" where
  "calculateProfit c leverage openPrice closePrice quantity =
     (let validation = validateRequiredFields
            [(Leverage, leverage), (OpenPrice, openPrice),
             (ClosePrice, closePrice), (OpenQuantity, quantity)]
      in if \<not> isValid validation then Inl (Error (message validation))
         else if \<not> isPositive leverage then Inl (Error (MustBePositive Leverage))
         else if \<not> isPositive openPrice then Inl (Error (MustBePositive OpenPrice))
         else if \<not> isPositive closePrice then Inl (Error (MustBePositive ClosePrice))
         else if \<not> isPositive quantity then Inl (Error (MustBePositive OpenQuantity))
         else if isExtremeValue leverage \<or> isExtremeValue openPrice
                 \<or> isExtremeValue closePrice \<or> isExtremeValue quantity
              then Inl (Error InputOutOfRange)
         else if isLong c then Inr (calculateLongProfit c quantity openPrice closePrice)
         else Inr (calculateShortProfit c quantity openPrice closePrice))"

section \<open>Liquidation price\<close>

record liquidation_price =
  liquidationPrice :: jsnum
  initialMargin :: jsnum
  totalMargin :: jsnum

record liquidation_result = liquidation_price +
  isWarning :: bool

text \<open>
  The arithmetic of the engine: the operations \<open>+\<close>, \<open>-\<close>, \<open>*\<close> and \<open>/\<close> on
  numbers.  \<open>exactArith\<close> is the exact arithmetic of the first section; it
  agrees with the arithmetic of the language wherever operands and result are
  integers below \<open>2^53\<close>.
\<close>

record arith =
  num_add :: "jsnum \<Rightarrow> jsnum \<Rightarrow> jsnum"
  num_sub :: "jsnum \<Rightarrow> jsnum \<Rightarrow> jsnum"
  num_mul :: "jsnum \<Rightarrow> jsnum \<Rightarrow> jsnum"
  num_div :: "jsnum \<Rightarrow> jsnum \<Rightarrow> jsnum"

definition exactArith :: arith where
  "exactArith = \<lparr>num_add = js_add, num_sub = js_sub, num_mul = js_mul, num_div = js_div\<rparr>"

text \<open>
  The two formulas are called with numbers, and with a number or \<open>null\<close> (here
  \<open>None\<close>) for the custom initial margin.
\<close>

definition calculateLongLiquidationPrice ::
  "arith \<Rightarrow> jsnum \<Rightarrow> jsnum \<Rightarrow> jsnum \<Rightarrow> jsnum \<Rightarrow> jsnum option \<Rightarrow> liquidation_price" where
  "calculateLongLiquidationPrice ar leverage openPrice quantity addMargin customInitialMargin =
     (let initialMargin =
            (case customInitialMargin of
               Some m \<Rightarrow> if js_gt m (Fin 0) then m
                         else num_div ar (num_mul ar quantity openPrice) leverage
             | None \<Rightarrow> num_div ar (num_mul ar quantity openPrice) leverage);
          totalMargin = num_add ar initialMargin addMargin;
          liquidationPrice = num_sub ar openPrice (num_div ar totalMargin quantity)
      in \<lparr>liquidationPrice = liquidationPrice, initialMargin = initialMargin,
          totalMargin = totalMargin\<rparr>)"

definition calculateShortLiquidationPrice ::
  "arith \<Rightarrow> jsnum \<Rightarrow> jsnum \<Rightarrow> jsnum \<Rightarrow> jsnum \<Rightarrow> jsnum option \<Rightarrow> liquidation_price" where
  "calculateShortLiquidationPrice ar leverage openPrice quantity addMargin customInitialMargin =
     (let initialMargin =
            (case customInitialMargin of
               Some m \<Rightarrow> if js_gt m (Fin 0) then m
                         else num_div ar (num_mul ar quantity openPrice) leverage
             | None \<Rightarrow> num_div ar (num_mul ar quantity openPrice) leverage);
          totalMargin = num_add ar initialMargin addMargin;
          liquidationPrice = num_add ar openPrice (num_div ar totalMargin quantity)
      in \<lparr>liquidationPrice = liquidationPrice, initialMargin = initialMargin,
          totalMargin = totalMargin\<rparr>)"

text \<open>
  A parameter with the default \<open>null\<close> takes the default when the argument is
  \<open>undefined\<close>.  \<open>parseFloat(leverage) || 0\<close> is \<open>orZero\<close>.  The warning
  that the function prints on the console for a leverage outside 1 to 125 is
  not modelled; the flag \<open>isWarning\<close> of the result is.
\<close>

definition defaultNull :: "jsval \<Rightarrow> jsval" where
  "defaultNull v = (if v = JUndefined then JNull else v)"

definition orZero :: "jsnum \<Rightarrow> jsnum" where
  "orZero n = (if truthy n then n else Fin 0)"

definition calculateLiquidation ::
  "arith \<Rightarrow> config \<Rightarrow> jsval \<Rightarrow> jsval \<Rightarrow> jsval \<Rightarrow> jsval \<Rightarrow> jsval
     \<Rightarrow> error + liquidation_result" where
  "calculateLiquidation ar c leverage openPrice quantity addMargin customInitialMargin0 =
     (let customInitialMargin = defaultNull customInitialMargin0;
          validation = validateRequiredFields [(OpenPrice, openPrice), (Quantity, quantity)]
      in if \<not> isValid validation then Inl (Error (message validation))
         else if (customInitialMargin = JNull \<or> js_le (toNumber customInitialMargin) (Fin 0))
                 \<and> (\<not> isValidNumber leverage \<or> \<not> isPositive leverage)
              then Inl (Error EnterLeverageOrMargin)
         else if \<not> isPositive openPrice then Inl (Error (MustBePositive OpenPrice))
         else if \<not> isPositive quantity then Inl (Error (MustBePositive Quantity))
         else if \<not> isNonNegative addMargin then Inl (Error (MustNotBeNegative AddMargin))
         else if customInitialMargin \<noteq> JNull \<and> \<not> isNonNegative customInitialMargin
              then Inl (Error (MustNotBeNegative InitialMargin))
         else if isExtremeValue openPrice \<or> isExtremeValue quantity \<or> isExtremeValue addMargin
                 \<or> (customInitialMargin \<noteq> JNull \<and> isExtremeValue customInitialMargin)
              then Inl (Error InputOutOfRange)
         else
           let result =
                 (if isLong c then
                    calculateLongLiquidationPrice ar
                      (orZero (parseFloat leverage)) (parseFloat openPrice) (parseFloat quantity)
                      (parseFloat addMargin)
                      (if customInitialMargin \<noteq> JNull then Some (parseFloat customInitialMargin)
                       else None)
                  else
                    calculateShortLiquidationPrice ar
                      (orZero (parseFloat leverage)) (parseFloat openPrice) (parseFloat quantity)
                      (parseFloat addMargin)
                      (if customInitialMargin \<noteq> JNull then Some (parseFloat customInitialMargin)
                       else None))
           in if \<not> isValidNumber (JNum (liquidationPrice result))
                 \<or> js_le (liquidationPrice result) (Fin 0)
              then Inl (Error InvalidResult)
              else Inr \<lparr>liquidationPrice = liquidationPrice result,
                        initialMargin = initialMargin result,
                        totalMargin = totalMargin result,
                        isWarning = (js_lt (toNumber leverage) (Fin 1)
                                     \<or> js_gt (toNumber leverage) (Fin 125))\<rparr>)"

section \<open>Position size\<close>

text \<open>
  The result object has either the properties \<open>quantity\<close> and
  \<open>stopLossAmount\<close> or the properties \<open>positionValue\<close> and
  \<open>stopLossPercent\<close>; a property the object does not have is \<open>None\<close>.
\<close>

record position_result =
  quantity_r :: "jsnum option"
  stopLossAmount :: "jsnum option"
  positionValue :: "jsnum option"
  stopLossPercent :: "jsnum option"
  calculationType :: string

definition calculatePositionByAmount :: "jsnum \<Rightarrow> jsnum \<Rightarrow> position_result" where
  "calculatePositionByAmount plannedLoss amount =
     (let quantity = js_div plannedLoss amount
      in \<lparr>quantity_r = Some quantity, stopLossAmount = Some amount,
          positionValue = None, stopLossPercent = None, calculationType = ''amount''\<rparr>)"

definition calculatePositionByPercent :: "jsnum \<Rightarrow> jsnum \<Rightarrow> position_result" where
  "calculatePositionByPercent plannedLoss percent =
     (let percentDecimal = js_div percent (Fin 100);
          value = js_div plannedLoss percentDecimal
      in \<lparr>quantity_r = None, stopLossAmount = None,
          positionValue = Some value, stopLossPercent = Some percent,
          calculationType = ''percent''\<rparr>)"

definition calculatePosition :: "jsval \<Rightarrow> jsval \<Rightarrow> jsval \<Rightarrow> error + position_result" where
  "calculatePosition plannedLoss stopLossAmount0 stopLossPercent0 =
     (let stopLossAmount = defaultNull stopLossAmount0;
          stopLossPercent = defaultNull stopLossPercent0;
          validation = validateRequiredFields [(PlannedLoss, plannedLoss)]
      in if \<not> isValid validation then Inl (Error (message validation))
         else if \<not> isPositive plannedLoss then Inl (Error (MustBePositive PlannedLoss))
         else if isExtremeValue plannedLoss then Inl (Error (FieldOutOfRange PlannedLoss))
         else if stopLossAmount \<noteq> JNull \<and> isValidNumber stopLossAmount then
           (let amount = parseFloat stopLossAmount
            in if \<not> isPositive (JNum amount) then Inl (Error (MustBePositive StopLossAmount))
               else if isExtremeValue (JNum amount) then Inl (Error (FieldOutOfRange StopLossAmount))
               else Inr (calculatePositionByAmount (parseFloat plannedLoss) amount))
         else if stopLossPercent \<noteq> JNull \<and> isValidNumber stopLossPercent then
           (let percent = parseFloat stopLossPercent
            in if \<not> isPositive (JNum percent) then Inl (Error (MustBePositive StopLossPercent))
               else if js_gt percent (Fin 100) then Inl (Error PercentOver100)
               else Inr (calculatePositionByPercent (parseFloat plannedLoss) percent))
         else Inl (Error EnterStopLoss))"

section \<open>Average entry price\<close>

text \<open>
  A fill record, and the state of the module: the list \<open>positions\<close> and the
  clock that \<open>Date.now()\<close> reads.  The clock is the sequence \<open>clock\<close> of the
  values the successive readings return, in milliseconds, and \<open>reads\<close> counts
  the readings made so far.
\<close>

record fill =
  id' :: int
  quantity :: jsnum
  price :: jsnum
  fee :: jsnum
  actualCost :: jsnum
  totalCost :: jsnum

record tracker =
  positions :: "fill list"
  clock :: "nat \<Rightarrow> int"
  reads :: nat

definition addPosition ::
  "config \<Rightarrow> jsval \<Rightarrow> jsval \<Rightarrow> tracker \<Rightarrow> error + (fill \<times> tracker)" where
  "addPosition c q p t =
     (let validation = validateRequiredFields [(Quantity, q), (Price, p)]
      in if \<not> isValid validation then Inl (Error (message validation))
         else if \<not> isPositive q then Inl (Error (MustBePositive Quantity))
         else if \<not> isPositive p then Inl (Error (MustBePositive Price))
         else if isExtremeValue q \<or> isExtremeValue p then Inl (Error InputOutOfRange)
         else
           let makerRate = makerFeeRate c;
               fee = js_mul (parseFloat p) makerRate;
               actualCost = js_add (parseFloat p) fee;
               position = \<lparr>id' = clock t (reads t),
                           quantity = parseFloat q,
                           price = parseFloat p,
                           fee = fee,
                           actualCost = actualCost,
                           totalCost = js_mul (parseFloat q) actualCost\<rparr>
           in Inr (position, t\<lparr>positions := positions t @ [position], reads := Suc (reads t)\<rparr>))"

definition removePosition :: "int \<Rightarrow> tracker \<Rightarrow> tracker" where
  "removePosition i t = t\<lparr>positions := filter (\<lambda>p. id' p \<noteq> i) (positions t)\<rparr>"

definition getAllPositions :: "tracker \<Rightarrow> fill list" where
  "getAllPositions t = positions t"

definition clearPositions :: "tracker \<Rightarrow> tracker" where
  "clearPositions t = t\<lparr>positions := []\<rparr>"

record average_result =
  averagePrice :: jsnum
  totalQuantity :: jsnum
  totalCost_r :: jsnum

definition calculateAveragePrice :: "tracker \<Rightarrow> error + average_result" where
  "calculateAveragePrice t =
     (if length (positions t) = 0 then Inl (Error NoRecords)
      else
        let totals = foldl (\<lambda>(tq, tc) position.
                            (js_add tq (quantity position), js_add tc (totalCost position)))
                         (Fin 0, Fin 0) (positions t);
            tq = fst totals;
            tc = snd totals;
            avg = (if js_gt tq (Fin 0) then js_div tc tq else Fin 0)
        in Inr \<lparr>averagePrice = avg, totalQuantity = tq, totalCost_r = tc\<rparr>)"

section \<open>Global configuration: setters and listeners\<close>

text \<open>
  A listener is a function object: it has an identity (\<open>lid\<close>, what
  \<open>indexOf\<close> compares) and a behaviour (\<open>run\<close>).  Called with the key and the
  new value, it may read the settings, change the state outside the
  configuration (\<open>app\<close>, of any type, and the console), and return or throw
  (\<open>Some\<close> of what it threw).  That a listener changes the configuration or
  the list of listeners while it is being notified is outside this model.
  The field \<open>calls\<close> is a history of the calls made to listeners: the
  identity of the listener and the two arguments, in the order of the calls.
\<close>

record all_config = config +
  totalFeeRate :: jsnum

datatype notice = NValue jsval | NSnapshot all_config

datatype console_entry =
    InvalidDirection jsval
  | InvalidMakerFeeRate jsval
  | InvalidTakerFeeRate jsval
  | ListenerError string
  | RecalcError error

record 's env =
  app :: 's
  console :: "console_entry list"

record 's listener =
  lid :: nat
  run :: "config \<Rightarrow> string \<Rightarrow> notice \<Rightarrow> 's env \<Rightarrow> 's env \<times> string option"

record 's system =
  conf :: config
  listeners :: "'s listener list"
  env :: "'s env"
  calls :: "(nat \<times> string \<times> notice) list"

definition logError :: "console_entry \<Rightarrow> 's system \<Rightarrow> 's system" where
  "logError e sys = sys\<lparr>env := (env sys)\<lparr>console := console (env sys) @ [e]\<rparr>\<rparr>"

text \<open>One turn of the loop of \<open>notifyListeners\<close>: the call in its \<open>try\<close>, and the \<open>catch\<close>.\<close>

definition invoke :: "string \<Rightarrow> notice \<Rightarrow> 's listener \<Rightarrow> 's system \<Rightarrow> 's system" where
  "invoke key v l sys =
     (let r = run l (conf sys) key v (env sys);
          sys' = sys\<lparr>env := fst r, calls := calls sys @ [(lid l, key, v)]\<rparr>
      in case snd r of
           None \<Rightarrow> sys'
         | Some thrown \<Rightarrow> logError (ListenerError thrown) sys')"

primrec notifyEach :: "string \<Rightarrow> notice \<Rightarrow> 's listener list \<Rightarrow> 's system \<Rightarrow> 's system" where
  "notifyEach key v [] sys = sys"
| "notifyEach key v (l # ls) sys = notifyEach key v ls (invoke key v l sys)"

definition notifyListeners :: "string \<Rightarrow> notice \<Rightarrow> 's system \<Rightarrow> 's system" where
  "notifyListeners key v sys = notifyEach key v (listeners sys) sys"

definition getDirection :: "'s system \<Rightarrow> string" where
  "getDirection sys = direction (conf sys)"

definition setDirection :: "jsval \<Rightarrow> 's system \<Rightarrow> 's system" where
  "setDirection d sys =
     (if d \<noteq> JStr ''long'' \<and> d \<noteq> JStr ''short'' then logError (InvalidDirection d) sys
      else notifyListeners ''direction'' (NValue d)
             (sys\<lparr>conf := (conf sys)\<lparr>direction := (case d of JStr s \<Rightarrow> s | _ \<Rightarrow> [])\<rparr>\<rparr>))"

definition getMakerFeeRate :: "'s system \<Rightarrow> jsnum" where
  "getMakerFeeRate sys = makerFeeRate (conf sys)"

definition setMakerFeeRate :: "jsval \<Rightarrow> 's system \<Rightarrow> 's system" where
  "setMakerFeeRate rate sys =
     (let rateValue = parseFloat rate
      in if isNaN rateValue \<or> js_lt rateValue (Fin 0) then logError (InvalidMakerFeeRate rate) sys
         else
           let sys' = sys\<lparr>conf := (conf sys)\<lparr>makerFeeRate := js_div rateValue (Fin 100)\<rparr>\<rparr>
           in notifyListeners ''makerFeeRate'' (NValue (JNum (makerFeeRate (conf sys')))) sys')"

definition getTakerFeeRate :: "'s system \<Rightarrow> jsnum" where
  "getTakerFeeRate sys = takerFeeRate (conf sys)"

definition setTakerFeeRate :: "jsval \<Rightarrow> 's system \<Rightarrow> 's system" where
  "setTakerFeeRate rate sys =
     (let rateValue = parseFloat rate
      in if isNaN rateValue \<or> js_lt rateValue (Fin 0) then logError (InvalidTakerFeeRate rate) sys
         else
           let sys' = sys\<lparr>conf := (conf sys)\<lparr>takerFeeRate := js_div rateValue (Fin 100)\<rparr>\<rparr>
           in notifyListeners ''takerFeeRate'' (NValue (JNum (takerFeeRate (conf sys')))) sys')"

text \<open>
  \<open>addConfigListener\<close> takes any value and keeps it if it is a function:
  \<open>Inr\<close> is a function, \<open>Inl\<close> any other value.
\<close>

definition addConfigListener :: "jsval + 's listener \<Rightarrow> 's system \<Rightarrow> 's system" where
  "addConfigListener listener sys =
     (case listener of
        Inr f \<Rightarrow> sys\<lparr>listeners := listeners sys @ [f]\<rparr>
      | Inl _ \<Rightarrow> sys)"

fun removeFirst :: "nat \<Rightarrow> 's listener list \<Rightarrow> 's listener list" where
  "removeFirst i [] = []"
| "removeFirst i (l # ls) = (if lid l = i then ls else l # removeFirst i ls)"

definition removeConfigListener :: "'s listener \<Rightarrow> 's system \<Rightarrow> 's system" where
  "removeConfigListener listener sys = sys\<lparr>listeners := removeFirst (lid listener) (listeners sys)\<rparr>"

definition getAllConfig :: "'s system \<Rightarrow> all_config" where
  "getAllConfig sys =
     \<lparr>direction = direction (conf sys), makerFeeRate = makerFeeRate (conf sys),
      takerFeeRate = takerFeeRate (conf sys), totalFeeRate = getTotalFeeRate (conf sys)\<rparr>"

definition resetConfig :: "'s system \<Rightarrow> 's system" where
  "resetConfig sys =
     (let sys' = sys\<lparr>conf := defaultConfig\<rparr>
      in notifyListeners ''reset'' (NSnapshot (getAllConfig sys')) sys')"

subsection \<open>The listener of the average price module\<close>

text \<open>
  The listener that \<open>initAveragePriceCalculator\<close> registers.  On the key
  \<open>makerFeeRate\<close> it empties the list and adds every old record again from
  its quantity and price; an error of \<open>addPosition\<close> is caught and printed.
  Redrawing the page, which follows, is not part of the model.
\<close>

primrec readdAll :: "config \<Rightarrow> fill list \<Rightarrow> tracker env \<Rightarrow> tracker env" where
  "readdAll c [] e = e"
| "readdAll c (pos # oldPositions) e =
     readdAll c oldPositions
       (case addPosition c (JNum (quantity pos)) (JNum (price pos)) (app e) of
          Inl err \<Rightarrow> e\<lparr>console := console e @ [RecalcError err]\<rparr>
        | Inr (_, t') \<Rightarrow> e\<lparr>app := t'\<rparr>)"

definition averagePriceListener ::
  "config \<Rightarrow> string \<Rightarrow> notice \<Rightarrow> tracker env \<Rightarrow> tracker env \<times> string option" where
  "averagePriceListener c key v e =
     (if key = ''makerFeeRate'' then
        (let oldPositions = positions (app e)
         in (readdAll c oldPositions (e\<lparr>app := (app e)\<lparr>positions := []\<rparr>\<rparr>), None))
      else (e, None))"

section \<open>Notions used in the statements\<close>

text \<open>The sum of a list of numbers, with the addition of the language.\<close>

primrec js_sum :: "jsnum list \<Rightarrow> jsnum" where
  "js_sum [] = Fin 0"
| "js_sum (x # xs) = js_add x (js_sum xs)"

text \<open>
  The states of the average price module that the program can reach: the list
  is private to the module, so it changes only through the four operations of
  the module, starting empty.
\<close>

inductive reachable :: "tracker \<Rightarrow> bool" where
  start: "reachable \<lparr>positions = [], clock = k, reads = 0\<rparr>"
| add: "reachable t \<Longrightarrow> addPosition c q p t = Inr (r, t') \<Longrightarrow> reachable t'"
| remove: "reachable t \<Longrightarrow> reachable (removePosition i t)"
| clear: "reachable t \<Longrightarrow> reachable (clearPositions t)"
| recalc: "reachable t \<Longrightarrow>
           reachable (app (fst (averagePriceListener c key v \<lparr>app = t, console = cs\<rparr>)))"

text \<open>
  The record that \<open>addPosition\<close> makes from a quantity and a price under a
  maker fee rate, in the words of the specification, and the test that a
  record can be added again: its quantity and price are positive numbers of
  at most \<open>10^15\<close>.
\<close>

definition recreate :: "jsnum \<Rightarrow> int \<Rightarrow> jsnum \<Rightarrow> jsnum \<Rightarrow> fill" where
  "recreate rate i q p =
     \<lparr>id' = i, quantity = q, price = p, fee = js_mul p rate,
      actualCost = js_add p (js_mul p rate),
      totalCost = js_mul q (js_add p (js_mul p rate))\<rparr>"

fun inBounds :: "jsnum \<Rightarrow> bool" where
  "inBounds (Fin x) = (0 < x \<and> x \<le> 10 ^ 15)"
| "inBounds _ = False"

definition acceptable :: "fill \<Rightarrow> bool" where
  "acceptable p = (inBounds (quantity p) \<and> inBounds (price p))"

text \<open>
  Three listeners for the examples: one that writes its arguments down in
  \<open>app\<close>, a list of lines here, one that throws before doing anything, and the
  system that has \<open>[note 1, failing 2, note 3]\<close> registered, in this order.
\<close>

definition noteListener :: "nat \<Rightarrow> (nat \<times> string \<times> notice) list listener" where
  "noteListener i = \<lparr>lid = i, run = (\<lambda>c key v e. (e\<lparr>app := app e @ [(i, key, v)]\<rparr>, None))\<rparr>"

definition failingListener :: "nat \<Rightarrow> (nat \<times> string \<times> notice) list listener" where
  "failingListener i = \<lparr>lid = i, run = (\<lambda>c key v e. (e, Some ''boom''))\<rparr>"

definition sampleSystem :: "(nat \<times> string \<times> notice) list system" where
  "sampleSystem =
     addConfigListener (Inr (noteListener 3))
       (addConfigListener (Inr (failingListener 2))
          (addConfigListener (Inr (noteListener 1))
             \<lparr>conf = defaultConfig, listeners = [],
              env = \<lparr>app = [], console = []\<rparr>, calls = []\<rparr>))"

text \<open>A system whose only listener is that of the average price module.\<close>

definition trackerSystem :: "config \<Rightarrow> tracker \<Rightarrow> tracker system" where
  "trackerSystem c t =
     \<lparr>conf = c, listeners = [\<lparr>lid = 0, run = averagePriceListener\<rparr>],
      env = \<lparr>app = t, console = []\<rparr>, calls = []\<rparr>"

section \<open>Properties\<close>

subsection \<open>Values and validation\<close>

lemma scanNonDecimal_scanDecimal:
  assumes "scanNonDecimal t = Some (n, rest)"
  shows "\<exists>r. scanDecimal t = Some (Fin 0, r)"
proof -
  from assms obtain x r where t: "t = CHR ''0'' # x # r"
    and x: "x \<in> set ''xXoObB''"
    by (auto simp: scanNonDecimal_def Let_def split: list.splits if_splits)
  have nd: "\<not> isDigit x" using x by (auto simp: isDigit_def)
  have ne: "x \<noteq> CHR ''e''" "x \<noteq> CHR ''E''" "x \<noteq> CHR ''.''" using x by auto
  have se: "scanExponent (x # r) = (0, x # r)" using ne by (simp add: scanExponent_def)
  have d0: "isDigit CHR ''0''" by (simp add: isDigit_def)
  have su: "scanUnsigned t = Some (Fin 0, x # r)"
    unfolding t scanUnsigned_def using nd ne se d0
    by (simp add: Let_def digitsValue_def)
  show ?thesis unfolding scanDecimal_def using su t by simp
qed

lemma isValidNumber_JStr:
  assumes "isValidNumber (JStr s)"
  shows "\<exists>x. parseFloat (JStr s) = Fin x \<and> (toNumber (JStr s) = Fin x \<or> x = 0)"
proof -
  let ?t = "dropWhile isWS s"
  from assms have a: "\<not> isNaN (parseFloat_str s)" and b: "isFinite_num (stringToNumber s)"
    by (auto simp: isValidNumber_def)
  from a obtain v rest where sd: "scanDecimal ?t = Some (v, rest)" and pv: "parseFloat_str s = v"
    by (auto simp: parseFloat_str_def split: option.splits)
  have ne: "?t \<noteq> []" using sd by (cases ?t) (simp_all add: scanDecimal_def)
  show ?thesis
  proof (cases "scanNonDecimal ?t")
    case None
    with b ne sd have "stringToNumber s = v" "isFinite_num v"
      by (auto simp: stringToNumber_def Let_def split: if_splits)
    then show ?thesis using pv by (cases v) auto
  next
    case (Some a)
    then obtain n r where "scanNonDecimal ?t = Some (n, r)" by (cases a) auto
    from scanNonDecimal_scanDecimal[OF this] sd have "v = Fin 0" by auto
    then show ?thesis using pv by simp
  qed
qed

lemma isValidNumber_num:
  assumes "isValidNumber v"
  shows "\<exists>x. parseFloat v = Fin x \<and> (toNumber v = Fin x \<or> x = 0)"
proof (cases v)
  case (JNum n)
  with assms show ?thesis by (cases n) (auto simp: isValidNumber_def)
next
  case (JStr s)
  with assms isValidNumber_JStr show ?thesis by blast
qed (use assms in \<open>auto simp: isValidNumber_def\<close>)

lemma isPositive_num:
  assumes "isPositive v"
  shows "\<exists>x. 0 < x \<and> parseFloat v = Fin x \<and> toNumber v = Fin x"
proof -
  from assms have "isValidNumber v" and g: "js_gt (parseFloat v) (Fin 0)"
    by (auto simp: isPositive_def)
  from isValidNumber_num[OF this(1)] obtain x where
    x: "parseFloat v = Fin x" "toNumber v = Fin x \<or> x = 0" by blast
  with g have "0 < x" by (simp add: js_gt_def)
  with x show ?thesis by auto
qed

lemma isNonNegative_num:
  assumes "isNonNegative v"
  shows "\<exists>x. 0 \<le> x \<and> parseFloat v = Fin x"
proof -
  from assms have "isValidNumber v" and g: "js_ge (parseFloat v) (Fin 0)"
    by (auto simp: isNonNegative_def)
  from isValidNumber_num[OF this(1)] obtain x where
    x: "parseFloat v = Fin x" by blast
  with g have "0 \<le> x" by (simp add: js_ge_def)
  with x show ?thesis by auto
qed

lemma isValidNumber_not_isEmpty: "isValidNumber v \<Longrightarrow> \<not> isEmpty v"
  by (auto simp: isValidNumber_def isEmpty_def)

lemma validateRequiredFields_ok:
  "(\<forall>e \<in> set fs. isValidNumber (snd e)) \<Longrightarrow>
   validateRequiredFields fs = \<lparr>isValid = True, message = NoMessage\<rparr>"
  by (induction fs) (auto simp: isValidNumber_not_isEmpty)

subsection \<open>Profit\<close>

text \<open>
  Claim C1.  When the four arguments of \<open>calculateProfit\<close> are valid, positive
  and not extreme, the call returns a result.  With \<open>ov\<close>, \<open>cv\<close> and \<open>qv\<close> the
  numbers that the open price, the close price and the quantity stand for, the
  open fee is \<open>qv * ov\<close> times the maker fee rate of the configuration, the close
  fee is \<open>qv * cv\<close> times its taker fee rate, the total fee is their sum, the
  profit is \<open>qv * (cv - ov)\<close> less the total fee when the direction is long and
  \<open>qv * (ov - cv)\<close> less the total fee otherwise, and the profit rate is the
  profit divided by the cost \<open>qv * ov\<close>, which is positive.  For finite fee
  rates \<open>m\<close> and \<open>t\<close> the profit is the real number
  \<open>qv * (cv - ov) - (qv * ov * m + qv * cv * t)\<close>, respectively with
  \<open>ov - cv\<close>.
\<close>

theorem calculateProfit_formula:
  assumes pl: "isPositive lev" and po: "isPositive opn"
    and pc: "isPositive cls" and pq: "isPositive qty"
    and ex: "\<not> isExtremeValue lev" "\<not> isExtremeValue opn"
            "\<not> isExtremeValue cls" "\<not> isExtremeValue qty"
  shows "\<exists>ov cv qv r.
           parseFloat opn = Fin ov \<and> parseFloat cls = Fin cv
         \<and> parseFloat qty = Fin qv \<and> 0 < ov \<and> 0 < cv \<and> 0 < qv
         \<and> calculateProfit c lev opn cls qty = Inr r
         \<and> openFee r = js_mul (Fin (qv * ov)) (makerFeeRate c)
         \<and> closeFee r = js_mul (Fin (qv * cv)) (takerFeeRate c)
         \<and> totalFee r = js_add (openFee r) (closeFee r)
         \<and> profit r = js_sub (Fin (if isLong c then qv * (cv - ov) else qv * (ov - cv))) (totalFee r)
         \<and> profitRate r = js_div (profit r) (Fin (qv * ov))
         \<and> (\<forall>m t. makerFeeRate c = Fin m \<and> takerFeeRate c = Fin t \<longrightarrow>
               profit r = Fin ((if isLong c then qv * (cv - ov) else qv * (ov - cv))
                               - (qv * ov * m + qv * cv * t))
             \<and> profitRate r = Fin (((if isLong c then qv * (cv - ov) else qv * (ov - cv))
                               - (qv * ov * m + qv * cv * t)) / (qv * ov)))"
proof -
  from isPositive_num[OF po] obtain ov where ov: "0 < ov" "parseFloat opn = Fin ov" "toNumber opn = Fin ov" by blast
  from isPositive_num[OF pc] obtain cv where cv: "0 < cv" "parseFloat cls = Fin cv" "toNumber cls = Fin cv" by blast
  from isPositive_num[OF pq] obtain qv where qv: "0 < qv" "parseFloat qty = Fin qv" "toNumber qty = Fin qv" by blast
  have valid: "isValidNumber lev" "isValidNumber opn" "isValidNumber cls" "isValidNumber qty"
    using pl po pc pq by (simp_all add: isPositive_def)
  have v: "validateRequiredFields [(Leverage, lev), (OpenPrice, opn),
             (ClosePrice, cls), (OpenQuantity, qty)] = \<lparr>isValid = True, message = NoMessage\<rparr>"
    by (rule validateRequiredFields_ok) (simp add: valid)
  have cost: "0 < qv * ov" using qv(1) ov(1) by simp
  define r where "r = (if isLong c then calculateLongProfit c qty opn cls
                       else calculateShortProfit c qty opn cls)"
  have res: "calculateProfit c lev opn cls qty = Inr r"
    unfolding calculateProfit_def r_def using v pl po pc pq ex by (simp add: Let_def)
  have f1: "openFee r = js_mul (Fin (qv * ov)) (makerFeeRate c)"
    by (simp add: r_def calculateLongProfit_def calculateShortProfit_def calculateOpenFee_def Let_def ov qv)
  have f2: "closeFee r = js_mul (Fin (qv * cv)) (takerFeeRate c)"
    by (simp add: r_def calculateLongProfit_def calculateShortProfit_def calculateCloseFee_def Let_def cv qv)
  have f3: "totalFee r = js_add (openFee r) (closeFee r)"
    by (simp add: r_def calculateLongProfit_def calculateShortProfit_def Let_def)
  have f4: "profit r = js_sub (Fin (if isLong c then qv * (cv - ov) else qv * (ov - cv))) (totalFee r)"
    by (simp add: r_def calculateLongProfit_def calculateShortProfit_def Let_def ov cv qv js_sub_def)
  have f5: "profitRate r = js_div (profit r) (Fin (qv * ov))"
    using cost
    by (simp add: r_def calculateLongProfit_def calculateShortProfit_def Let_def ov cv qv js_gt_def)
  have f6: "profit r = Fin ((if isLong c then qv * (cv - ov) else qv * (ov - cv))
                               - (qv * ov * m + qv * cv * t))
          \<and> profitRate r = Fin (((if isLong c then qv * (cv - ov) else qv * (ov - cv))
                               - (qv * ov * m + qv * cv * t)) / (qv * ov))"
    if "makerFeeRate c = Fin m \<and> takerFeeRate c = Fin t" for m t
    using that qv(1) ov(1) unfolding f5 f4 f3 f1 f2 by (simp add: js_sub_def)
  show ?thesis
    using ov(1,2) cv(1,2) qv(1,2) res f1 f2 f3 f4 f5 f6 by blast
qed

theorem calculateProfit_formula_witness:
  "isPositive (JStr ''10'') \<and> isPositive (JNum (Fin 100))
   \<and> isPositive (JNum (Fin 110)) \<and> isPositive (JNum (Fin 2))
   \<and> \<not> isExtremeValue (JStr ''10'') \<and> \<not> isExtremeValue (JNum (Fin 100))
   \<and> \<not> isExtremeValue (JNum (Fin 110)) \<and> \<not> isExtremeValue (JNum (Fin 2))
   \<and> makerFeeRate defaultConfig = Fin (2 / 10000) \<and> takerFeeRate defaultConfig = Fin (5 / 10000)
   \<and> (\<exists>r. calculateProfit defaultConfig (JStr ''10'') (JNum (Fin 100)) (JNum (Fin 110)) (JNum (Fin 2)) = Inr r
          \<and> profit r = Fin (1985 / 100) \<and> profitRate r = Fin (9925 / 100000)
          \<and> openFee r = Fin (4 / 100) \<and> closeFee r = Fin (11 / 100))"
proof -
  have s10: "parseFloat_str ''10'' = Fin 10" "stringToNumber ''10'' = Fin 10"
    by (simp_all add: parseFloat_str_def stringToNumber_def scanNonDecimal_def scanDecimal_def
          scanUnsigned_def scanExponent_def isWS_def isDigit_def digitsValue_def)
  have p: "isPositive (JStr ''10'')" "isPositive (JNum (Fin 100))"
       "isPositive (JNum (Fin 110))" "isPositive (JNum (Fin 2))"
    by (simp_all add: isPositive_def isValidNumber_def js_gt_def s10)
  have e: "\<not> isExtremeValue (JStr ''10'')" "\<not> isExtremeValue (JNum (Fin 100))"
       "\<not> isExtremeValue (JNum (Fin 110))" "\<not> isExtremeValue (JNum (Fin 2))"
    by (simp_all add: isExtremeValue_def isValidNumber_def js_gt_def s10)
  have m: "makerFeeRate defaultConfig = Fin (2 / 10000) \<and> takerFeeRate defaultConfig = Fin (5 / 10000)"
    by (simp add: defaultConfig_def)
  have l: "isLong defaultConfig" by (simp add: isLong_def defaultConfig_def)
  from calculateProfit_formula[OF p e, of defaultConfig] m l p e
  show ?thesis by (auto simp: defaultConfig_def js_sub_def)
qed

lemma validateRequiredFields_message:
  "message (validateRequiredFields fs) \<noteq> InvalidResult"
  by (induction fs) (auto split: if_splits)

lemma isValidNumber_JNum [simp]: "isValidNumber (JNum n) = isFinite_num n"
  by (cases n) (simp_all add: isValidNumber_def)

lemma isPositive_Fin [simp]: "isPositive (JNum (Fin x)) = (0 < x)"
  by (simp add: isPositive_def js_gt_def)

lemma isNonNegative_Fin [simp]: "isNonNegative (JNum (Fin x)) = (0 \<le> x)"
  by (simp add: isNonNegative_def js_ge_def)

lemma isExtremeValue_Fin [simp]: "isExtremeValue (JNum (Fin x)) = (10 ^ 15 < \<bar>x\<bar>)"
  by (simp add: isExtremeValue_def js_gt_def)

lemma isValidNumber_defaultNull [simp]: "isValidNumber (defaultNull v) = isValidNumber v"
  by (simp add: defaultNull_def isValidNumber_def)

lemma post_check_iff:
  "(isFinite_num n \<and> js_gt n (Fin 0)) = (\<not> (\<not> isValidNumber (JNum n) \<or> js_le n (Fin 0)))"
  by (cases n) (auto simp: js_gt_def)

subsection \<open>Liquidation price\<close>

lemma calculateLiquidation_checked:
  assumes po: "isPositive opn" and pq: "isPositive qty" and na: "isNonNegative add"
    and nc: "defaultNull cim \<noteq> JNull \<longrightarrow> isNonNegative (defaultNull cim)"
    and ex: "\<not> isExtremeValue opn" "\<not> isExtremeValue qty" "\<not> isExtremeValue add"
            "defaultNull cim \<noteq> JNull \<longrightarrow> \<not> isExtremeValue (defaultNull cim)"
    and lv: "defaultNull cim = JNull \<or> js_le (toNumber (defaultNull cim)) (Fin 0)
               \<longrightarrow> isPositive lev"
  shows "\<exists>ov qv av.
           parseFloat opn = Fin ov \<and> 0 < ov \<and> parseFloat qty = Fin qv \<and> 0 < qv
         \<and> parseFloat add = Fin av \<and> 0 \<le> av
         \<and> (let custom = defaultNull cim;
                 im = (if custom \<noteq> JNull \<and> js_gt (parseFloat custom) (Fin 0)
                       then parseFloat custom
                       else num_div ar (num_mul ar (Fin qv) (Fin ov)) (orZero (parseFloat lev)));
                 tm = num_add ar im (Fin av);
                 lp = (if isLong c then num_sub ar (Fin ov) (num_div ar tm (Fin qv))
                       else num_add ar (Fin ov) (num_div ar tm (Fin qv)))
             in calculateLiquidation ar c lev opn qty add cim =
                  (if isFinite_num lp \<and> js_gt lp (Fin 0)
                   then Inr \<lparr>liquidationPrice = lp, initialMargin = im, totalMargin = tm,
                             isWarning = (js_lt (toNumber lev) (Fin 1)
                                          \<or> js_gt (toNumber lev) (Fin 125))\<rparr>
                   else Inl (Error InvalidResult))
              \<and> (custom = JNull \<or> js_le (toNumber custom) (Fin 0) \<longrightarrow>
                   (\<exists>lv. 0 < lv \<and> parseFloat lev = Fin lv
                       \<and> im = num_div ar (num_mul ar (Fin qv) (Fin ov)) (Fin lv))))"
proof -
  let ?custom = "defaultNull cim"
  let ?val = "validateRequiredFields [(OpenPrice, opn), (Quantity, qty)]"
  note d = calculateLiquidation_def Let_def
  have valid: "isValidNumber opn" "isValidNumber qty" using po pq by (simp_all add: isPositive_def)
  have v: "?val = \<lparr>isValid = True, message = NoMessage\<rparr>"
    by (rule validateRequiredFields_ok) (simp add: valid)
  have c1: "isValid ?val" unfolding v by simp
  have c2: "\<not> ((?custom = JNull \<or> js_le (toNumber ?custom) (Fin 0))
                \<and> (\<not> isValidNumber lev \<or> \<not> isPositive lev))"
    using lv by (auto simp: isPositive_def)
  have c6: "\<not> (?custom \<noteq> JNull \<and> \<not> isNonNegative ?custom)" using nc by blast
  have c7: "\<not> (isExtremeValue opn \<or> isExtremeValue qty \<or> isExtremeValue add
                 \<or> (?custom \<noteq> JNull \<and> isExtremeValue ?custom))"
    using ex by blast
  from isPositive_num[OF po] obtain ov where ov: "0 < ov" "parseFloat opn = Fin ov" by blast
  from isPositive_num[OF pq] obtain qv where qv: "0 < qv" "parseFloat qty = Fin qv" by blast
  from isNonNegative_num[OF na] obtain av where av: "0 \<le> av" "parseFloat add = Fin av" by blast
  let ?im = "(if ?custom \<noteq> JNull \<and> js_gt (parseFloat ?custom) (Fin 0)
                       then parseFloat ?custom
                       else num_div ar (num_mul ar (Fin qv) (Fin ov)) (orZero (parseFloat lev)))"
  let ?tm = "num_add ar ?im (Fin av)"
  let ?lp = "(if isLong c then num_sub ar (Fin ov) (num_div ar ?tm (Fin qv))
                       else num_add ar (Fin ov) (num_div ar ?tm (Fin qv)))"
  let ?res = "(if isLong c then
                    calculateLongLiquidationPrice ar
                      (orZero (parseFloat lev)) (parseFloat opn) (parseFloat qty)
                      (parseFloat add)
                      (if ?custom \<noteq> JNull then Some (parseFloat ?custom)
                       else None)
                  else
                    calculateShortLiquidationPrice ar
                      (orZero (parseFloat lev)) (parseFloat opn) (parseFloat qty)
                      (parseFloat add)
                      (if ?custom \<noteq> JNull then Some (parseFloat ?custom)
                       else None))"
  have r1: "liquidationPrice ?res = ?lp" "initialMargin ?res = ?im" "totalMargin ?res = ?tm"
    by (simp_all add: calculateLongLiquidationPrice_def calculateShortLiquidationPrice_def
          Let_def ov qv av)
  have post: "calculateLiquidation ar c lev opn qty add cim =
      (if \<not> isValidNumber (JNum (liquidationPrice ?res)) \<or> js_le (liquidationPrice ?res) (Fin 0)
       then Inl (Error InvalidResult)
       else Inr \<lparr>liquidationPrice = liquidationPrice ?res,
                        initialMargin = initialMargin ?res,
                        totalMargin = totalMargin ?res,
                        isWarning = (js_lt (toNumber lev) (Fin 1)
                                     \<or> js_gt (toNumber lev) (Fin 125))\<rparr>)"
    by (simp only: d c1 c2 po pq na c6 c7 not_True_eq_False if_False if_True simp_thms)
  have cond: "(isFinite_num ?lp \<and> js_gt ?lp (Fin 0)) =
      (\<not> (\<not> isValidNumber (JNum ?lp) \<or> js_le ?lp (Fin 0)))"
    by (rule post_check_iff)
  have main: "calculateLiquidation ar c lev opn qty add cim =
                  (if isFinite_num ?lp \<and> js_gt ?lp (Fin 0)
                   then Inr \<lparr>liquidationPrice = ?lp, initialMargin = ?im, totalMargin = ?tm,
                             isWarning = (js_lt (toNumber lev) (Fin 1)
                                          \<or> js_gt (toNumber lev) (Fin 125))\<rparr>
                   else Inl (Error InvalidResult))"
    unfolding cond post r1 by simp
  have levpart: "\<exists>lv. 0 < lv \<and> parseFloat lev = Fin lv
                   \<and> ?im = num_div ar (num_mul ar (Fin qv) (Fin ov)) (Fin lv)"
    if h: "?custom = JNull \<or> js_le (toNumber ?custom) (Fin 0)"
  proof -
    from lv h have "isPositive lev" by blast
    from isPositive_num[OF this] obtain lvv where
      lvv: "0 < lvv" "parseFloat lev = Fin lvv" by blast
    have ncu: "\<not> (?custom \<noteq> JNull \<and> js_gt (parseFloat ?custom) (Fin 0))"
    proof
      assume a: "?custom \<noteq> JNull \<and> js_gt (parseFloat ?custom) (Fin 0)"
      with h have le: "js_le (toNumber ?custom) (Fin 0)" by simp
      have nn: "isNonNegative ?custom" using c6 a by blast
      with a have "isPositive ?custom" by (simp add: isPositive_def isNonNegative_def)
      from isPositive_num[OF this] obtain x where "0 < x" "toNumber ?custom = Fin x" by blast
      with le show False by simp
    qed
    show ?thesis using ncu lvv by (auto simp: orZero_def)
  qed
  have lev': "?custom = JNull \<or> js_le (toNumber ?custom) (Fin 0) \<longrightarrow>
                   (\<exists>lv. 0 < lv \<and> parseFloat lev = Fin lv
                       \<and> ?im = num_div ar (num_mul ar (Fin qv) (Fin ov)) (Fin lv))"
    using levpart by (rule impI)
  show ?thesis
    unfolding Let_def
    using ov(2,1) qv(2,1) av(2,1) main lev'
    by (intro exI[of _ ov] exI[of _ qv] exI[of _ av] conjI) assumption+
qed

lemma calculateLiquidation_rejected:
  assumes "\<not> (isPositive opn \<and> isPositive qty \<and> isNonNegative add
       \<and> (defaultNull cim \<noteq> JNull \<longrightarrow> isNonNegative (defaultNull cim))
       \<and> \<not> isExtremeValue opn \<and> \<not> isExtremeValue qty \<and> \<not> isExtremeValue add
       \<and> (defaultNull cim \<noteq> JNull \<longrightarrow> \<not> isExtremeValue (defaultNull cim))
       \<and> (defaultNull cim = JNull \<or> js_le (toNumber (defaultNull cim)) (Fin 0)
               \<longrightarrow> isPositive lev))"
  shows "\<exists>m. m \<noteq> InvalidResult \<and> calculateLiquidation ar c lev opn qty add cim = Inl (Error m)"
proof -
  let ?custom = "defaultNull cim"
  let ?val = "validateRequiredFields [(OpenPrice, opn), (Quantity, qty)]"
  let ?calc = "calculateLiquidation ar c lev opn qty add cim"
  note d = calculateLiquidation_def Let_def
  have m: "message ?val \<noteq> InvalidResult" by (rule validateRequiredFields_message)
  show ?thesis
  proof (cases "isValid ?val")
    case False
    then have "?calc = Inl (Error (message ?val))" by (simp add: d)
    with m show ?thesis by blast
  next
    case c1: True
    show ?thesis
    proof (cases "(?custom = JNull \<or> js_le (toNumber ?custom) (Fin 0))
                \<and> (\<not> isValidNumber lev \<or> \<not> isPositive lev)")
      case True
      then have "?calc = Inl (Error EnterLeverageOrMargin)" using c1 by (simp add: d)
      then show ?thesis by blast
    next
      case c2: False
      show ?thesis
      proof (cases "isPositive opn")
        case False
        then have "?calc = Inl (Error (MustBePositive OpenPrice))" using c1 c2 by (simp add: d)
        then show ?thesis by blast
      next
        case c3: True
        show ?thesis
        proof (cases "isPositive qty")
          case False
          then have "?calc = Inl (Error (MustBePositive Quantity))"
            using c1 c2 c3 by (simp add: d)
          then show ?thesis by blast
        next
          case c4: True
          show ?thesis
          proof (cases "isNonNegative add")
            case False
            then have "?calc = Inl (Error (MustNotBeNegative AddMargin))"
              using c1 c2 c3 c4 by (simp add: d)
            then show ?thesis by blast
          next
            case c5: True
            show ?thesis
            proof (cases "?custom \<noteq> JNull \<and> \<not> isNonNegative ?custom")
              case True
              then have "?calc = Inl (Error (MustNotBeNegative InitialMargin))"
                using c1 c2 c3 c4 c5 by (simp add: d)
              then show ?thesis by blast
            next
              case c6: False
              show ?thesis
              proof (cases "isExtremeValue opn \<or> isExtremeValue qty \<or> isExtremeValue add
                 \<or> (?custom \<noteq> JNull \<and> isExtremeValue ?custom)")
                case True
                then have "?calc = Inl (Error InputOutOfRange)"
                  using c1 c2 c3 c4 c5 c6 by (simp add: d)
                then show ?thesis by blast
              next
                case c7: False
                have "isPositive lev" if "?custom = JNull \<or> js_le (toNumber ?custom) (Fin 0)"
                  using that c2 by blast
                with c3 c4 c5 c6 c7 assms show ?thesis by blast
              qed
            qed
          qed
        qed
      qed
    qed
  qed
qed

lemma text_100: "parseFloat_str ''100'' = Fin 100" "stringToNumber ''100'' = Fin 100"
  by (simp_all add: parseFloat_str_def stringToNumber_def scanNonDecimal_def scanDecimal_def
        scanUnsigned_def scanExponent_def isWS_def isDigit_def digitsValue_def)

text \<open>
  Claim C2.  A call of \<open>calculateLiquidation\<close> passes validation when the open
  price and the quantity are positive, the added margin is not negative, the
  custom initial margin, if one is given, is not negative, none of these is
  extreme, and the leverage is positive in case no custom initial margin is
  given or the given one compares as at most 0.  (A call that fails one of
  these conditions raises the error of a check on its inputs, as shown just
  above.)  For a call that passes, in every arithmetic, with \<open>ov\<close>, \<open>qv\<close>
  and \<open>av\<close> the numbers that the open price, the quantity and the added margin
  stand for: the initial margin is the custom initial margin when one is given
  and its number is greater than 0, and \<open>(qv * ov) / leverage\<close> otherwise, the
  leverage being the number that \<open>parseFloat\<close> reads, or 0 when it reads none;
  the total margin is the initial margin plus \<open>av\<close>; the liquidation price is
  \<open>ov - total / qv\<close> when the direction is long and \<open>ov + total / qv\<close>
  otherwise; the call returns these three values, with the flag \<open>isWarning\<close>,
  when the price is a finite number greater than 0, and raises the error of the
  check on the result when it is not.  When no custom initial margin is given,
  or the given one compares as at most 0, the leverage is a positive number
  \<open>lv\<close> and the initial margin is \<open>(qv * ov) / lv\<close>.
\<close>

theorem calculateLiquidation_result:
  assumes po: "isPositive opn" and pq: "isPositive qty" and na: "isNonNegative add"
    and nc: "defaultNull cim \<noteq> JNull \<longrightarrow> isNonNegative (defaultNull cim)"
    and ex: "\<not> isExtremeValue opn" "\<not> isExtremeValue qty" "\<not> isExtremeValue add"
            "defaultNull cim \<noteq> JNull \<longrightarrow> \<not> isExtremeValue (defaultNull cim)"
    and lv: "defaultNull cim = JNull \<or> js_le (toNumber (defaultNull cim)) (Fin 0)
               \<longrightarrow> isPositive lev"
  shows "\<exists>ov qv av.
           parseFloat opn = Fin ov \<and> 0 < ov \<and> parseFloat qty = Fin qv \<and> 0 < qv
         \<and> parseFloat add = Fin av \<and> 0 \<le> av
         \<and> (let custom = defaultNull cim;
                 im = (if custom \<noteq> JNull \<and> js_gt (parseFloat custom) (Fin 0)
                       then parseFloat custom
                       else num_div ar (num_mul ar (Fin qv) (Fin ov)) (orZero (parseFloat lev)));
                 tm = num_add ar im (Fin av);
                 lp = (if isLong c then num_sub ar (Fin ov) (num_div ar tm (Fin qv))
                       else num_add ar (Fin ov) (num_div ar tm (Fin qv)))
             in calculateLiquidation ar c lev opn qty add cim =
                  (if isFinite_num lp \<and> js_gt lp (Fin 0)
                   then Inr \<lparr>liquidationPrice = lp, initialMargin = im, totalMargin = tm,
                             isWarning = (js_lt (toNumber lev) (Fin 1)
                                          \<or> js_gt (toNumber lev) (Fin 125))\<rparr>
                   else Inl (Error InvalidResult))
              \<and> (custom = JNull \<or> js_le (toNumber custom) (Fin 0) \<longrightarrow>
                   (\<exists>lv. 0 < lv \<and> parseFloat lev = Fin lv
                       \<and> im = num_div ar (num_mul ar (Fin qv) (Fin ov)) (Fin lv))))"
  by (rule calculateLiquidation_checked[OF po pq na nc ex lv])

theorem calculateLiquidation_result_witness:
  "calculateLiquidation exactArith defaultConfig
      (JNum (Fin 10)) (JNum (Fin 100)) (JNum (Fin 1)) (JNum (Fin 0)) JUndefined
     = Inr \<lparr>liquidationPrice = Fin 90, initialMargin = Fin 10, totalMargin = Fin 10,
             isWarning = False\<rparr>
   \<and> calculateLiquidation exactArith (defaultConfig\<lparr>direction := ''short''\<rparr>)
      JNull (JStr ''100'') (JNum (Fin 2)) (JNum (Fin 10)) (JNum (Fin 30))
     = Inr \<lparr>liquidationPrice = Fin 120, initialMargin = Fin 30, totalMargin = Fin 40,
             isWarning = True\<rparr>
   \<and> calculateLiquidation exactArith defaultConfig
      JNull (JNum (Fin 100)) (JNum (Fin 1)) (JNum (Fin 0)) (JNum (Fin 200))
     = Inl (Error InvalidResult)"
proof -
  have l: "isLong defaultConfig" "\<not> isLong (defaultConfig\<lparr>direction := ''short''\<rparr>)"
    by (simp_all add: isLong_def defaultConfig_def)
  have ps: "isPositive (JStr ''100'')" "\<not> isExtremeValue (JStr ''100'')"
    by (simp_all add: isPositive_def isExtremeValue_def isValidNumber_def js_gt_def text_100)
  have a: "calculateLiquidation exactArith defaultConfig
      (JNum (Fin 10)) (JNum (Fin 100)) (JNum (Fin 1)) (JNum (Fin 0)) JUndefined
     = Inr \<lparr>liquidationPrice = Fin 90, initialMargin = Fin 10, totalMargin = Fin 10,
             isWarning = False\<rparr>"
    using calculateLiquidation_result[where opn = "JNum (Fin 100)" and qty = "JNum (Fin 1)"
        and add = "JNum (Fin 0)" and cim = JUndefined and lev = "JNum (Fin 10)"
        and ar = exactArith and c = defaultConfig] l
    by (simp add: defaultNull_def orZero_def exactArith_def js_sub_def js_gt_def Let_def)
  have b: "calculateLiquidation exactArith (defaultConfig\<lparr>direction := ''short''\<rparr>)
      JNull (JStr ''100'') (JNum (Fin 2)) (JNum (Fin 10)) (JNum (Fin 30))
     = Inr \<lparr>liquidationPrice = Fin 120, initialMargin = Fin 30, totalMargin = Fin 40,
             isWarning = True\<rparr>"
    using calculateLiquidation_result[where opn = "JStr ''100''" and qty = "JNum (Fin 2)"
        and add = "JNum (Fin 10)" and cim = "JNum (Fin 30)" and lev = JNull
        and ar = exactArith and c = "defaultConfig\<lparr>direction := ''short''\<rparr>"] l ps
    by (simp add: defaultNull_def orZero_def exactArith_def js_gt_def Let_def text_100)
  have c: "calculateLiquidation exactArith defaultConfig
      JNull (JNum (Fin 100)) (JNum (Fin 1)) (JNum (Fin 0)) (JNum (Fin 200))
     = Inl (Error InvalidResult)"
    using calculateLiquidation_result[where opn = "JNum (Fin 100)" and qty = "JNum (Fin 1)"
        and add = "JNum (Fin 0)" and cim = "JNum (Fin 200)" and lev = JNull
        and ar = exactArith and c = defaultConfig] l
    by (simp add: defaultNull_def orZero_def exactArith_def js_sub_def js_gt_def Let_def)
  from a b c show ?thesis by blast
qed

subsection \<open>Position size\<close>

lemma defaultNull_valid [simp]:
  "(defaultNull v \<noteq> JNull \<and> isValidNumber v) = isValidNumber v"
  by (auto simp: defaultNull_def isValidNumber_def)

lemma parseFloat_defaultNull [simp]: "parseFloat (defaultNull v) = parseFloat v"
  by (cases v) (simp_all add: defaultNull_def)

text \<open>
  Claim C3.  Let the planned loss be valid, positive and not extreme, and \<open>pv\<close>
  its number.  If the stop-loss amount is a valid number \<open>a\<close>, the amount mode is
  taken, whatever the percentage is: for \<open>0 < a \<le> 10^15\<close> the result has the
  quantity \<open>pv / a\<close> and the tag \<open>amount\<close>, and otherwise the call raises.  If
  it is not and the stop-loss percentage is a valid number \<open>p\<close>, the percent
  mode is taken: for \<open>0 < p \<le> 100\<close> the result has the position value
  \<open>pv / (p / 100)\<close> and the tag \<open>percent\<close>, and otherwise the call raises.
  If neither is a valid number the call raises.  A result has exactly one of the
  properties \<open>quantity\<close> and \<open>positionValue\<close>.  And
  \<open>calculatePosition(100, 0, null)\<close> raises.
\<close>

theorem calculatePosition_modes:
  assumes pos: "isPositive pl" and ext: "\<not> isExtremeValue pl"
  shows "\<exists>pv. parseFloat pl = Fin pv \<and> 0 < pv
     \<and> (isValidNumber sla \<longrightarrow>
          (\<exists>a. parseFloat sla = Fin a
              \<and> calculatePosition pl sla slp =
                  (if 0 < a \<and> a \<le> 10 ^ 15
                   then Inr \<lparr>quantity_r = Some (Fin (pv / a)), stopLossAmount = Some (Fin a),
                             positionValue = None, stopLossPercent = None,
                             calculationType = ''amount''\<rparr>
                   else if a \<le> 0 then Inl (Error (MustBePositive StopLossAmount))
                   else Inl (Error (FieldOutOfRange StopLossAmount)))))
     \<and> (\<not> isValidNumber sla \<and> isValidNumber slp \<longrightarrow>
          (\<exists>p. parseFloat slp = Fin p
              \<and> calculatePosition pl sla slp =
                  (if 0 < p \<and> p \<le> 100
                   then Inr \<lparr>quantity_r = None, stopLossAmount = None,
                             positionValue = Some (Fin (pv / (p / 100))),
                             stopLossPercent = Some (Fin p),
                             calculationType = ''percent''\<rparr>
                   else if p \<le> 0 then Inl (Error (MustBePositive StopLossPercent))
                   else Inl (Error PercentOver100))))
     \<and> (\<not> isValidNumber sla \<and> \<not> isValidNumber slp \<longrightarrow>
          calculatePosition pl sla slp = Inl (Error EnterStopLoss))
     \<and> (\<forall>r. calculatePosition pl sla slp = Inr r \<longrightarrow>
          (quantity_r r = None) \<noteq> (positionValue r = None))
     \<and> calculatePosition (JNum (Fin 100)) (JNum (Fin 0)) JNull
         = Inl (Error (MustBePositive StopLossAmount))"
proof -
  from isPositive_num[OF pos] obtain pv where pv: "0 < pv" "parseFloat pl = Fin pv" by blast
  have valid: "isValidNumber pl" using pos by (simp add: isPositive_def)
  have v: "validateRequiredFields [(PlannedLoss, pl)] = \<lparr>isValid = True, message = NoMessage\<rparr>"
    by (rule validateRequiredFields_ok) (simp add: valid)
  have step: "calculatePosition pl sla slp =
      (if isValidNumber sla then
           (let amount = parseFloat sla
            in if \<not> isPositive (JNum amount) then Inl (Error (MustBePositive StopLossAmount))
               else if isExtremeValue (JNum amount) then Inl (Error (FieldOutOfRange StopLossAmount))
               else Inr (calculatePositionByAmount (Fin pv) amount))
         else if isValidNumber slp then
           (let percent = parseFloat slp
            in if \<not> isPositive (JNum percent) then Inl (Error (MustBePositive StopLossPercent))
               else if js_gt percent (Fin 100) then Inl (Error PercentOver100)
               else Inr (calculatePositionByPercent (Fin pv) percent))
         else Inl (Error EnterStopLoss))"
    unfolding calculatePosition_def using v pos ext pv(2) by (simp add: Let_def)
  have amount: "\<exists>a. parseFloat sla = Fin a
              \<and> calculatePosition pl sla slp =
                  (if 0 < a \<and> a \<le> 10 ^ 15
                   then Inr \<lparr>quantity_r = Some (Fin (pv / a)), stopLossAmount = Some (Fin a),
                             positionValue = None, stopLossPercent = None,
                             calculationType = ''amount''\<rparr>
                   else if a \<le> 0 then Inl (Error (MustBePositive StopLossAmount))
                   else Inl (Error (FieldOutOfRange StopLossAmount)))"
    if va: "isValidNumber sla"
  proof -
    from isValidNumber_num[OF va] obtain a where a: "parseFloat sla = Fin a" by blast
    show ?thesis using va a unfolding step
      by (auto simp: Let_def calculatePositionByAmount_def)
  qed
  have percent: "\<exists>p. parseFloat slp = Fin p
              \<and> calculatePosition pl sla slp =
                  (if 0 < p \<and> p \<le> 100
                   then Inr \<lparr>quantity_r = None, stopLossAmount = None,
                             positionValue = Some (Fin (pv / (p / 100))),
                             stopLossPercent = Some (Fin p),
                             calculationType = ''percent''\<rparr>
                   else if p \<le> 0 then Inl (Error (MustBePositive StopLossPercent))
                   else Inl (Error PercentOver100))"
    if va: "\<not> isValidNumber sla \<and> isValidNumber slp"
  proof -
    from va have "isValidNumber slp" by simp
    from isValidNumber_num[OF this] obtain p where p: "parseFloat slp = Fin p" by blast
    show ?thesis using va p unfolding step
      by (auto simp: Let_def calculatePositionByPercent_def js_gt_def)
  qed
  have neither: "calculatePosition pl sla slp = Inl (Error EnterStopLoss)"
    if "\<not> isValidNumber sla \<and> \<not> isValidNumber slp"
    using that unfolding step by simp
  have one: "(quantity_r r = None) \<noteq> (positionValue r = None)"
    if "calculatePosition pl sla slp = Inr r" for r
    using that unfolding step
    by (auto simp: Let_def calculatePositionByAmount_def calculatePositionByPercent_def
             split: if_splits)
  have boundary: "calculatePosition (JNum (Fin 100)) (JNum (Fin 0)) JNull
         = Inl (Error (MustBePositive StopLossAmount))"
    by (simp add: calculatePosition_def Let_def defaultNull_def isEmpty_def)
  show ?thesis
    using pv amount percent neither one boundary by blast
qed

theorem calculatePosition_modes_witness:
  "isPositive (JNum (Fin 100)) \<and> \<not> isExtremeValue (JNum (Fin 100))
   \<and> isValidNumber (JStr ''4'') 
   \<and> calculatePosition (JNum (Fin 100)) (JStr ''4'') (JNum (Fin 10))
       = Inr \<lparr>quantity_r = Some (Fin 25), stopLossAmount = Some (Fin 4),
               positionValue = None, stopLossPercent = None, calculationType = ''amount''\<rparr>
   \<and> \<not> isValidNumber JNull \<and> isValidNumber (JNum (Fin 10))
   \<and> calculatePosition (JNum (Fin 100)) JNull (JNum (Fin 10))
       = Inr \<lparr>quantity_r = None, stopLossAmount = None,
               positionValue = Some (Fin 1000), stopLossPercent = Some (Fin 10),
               calculationType = ''percent''\<rparr>
   \<and> \<not> isValidNumber (JStr ''abc'')
   \<and> calculatePosition (JNum (Fin 100)) JNull (JStr ''abc'') = Inl (Error EnterStopLoss)"
proof -
  have s4: "parseFloat_str ''4'' = Fin 4" "stringToNumber ''4'' = Fin 4"
    by (simp_all add: parseFloat_str_def stringToNumber_def scanNonDecimal_def scanDecimal_def
          scanUnsigned_def scanExponent_def isWS_def isDigit_def digitsValue_def)
  have sabc: "parseFloat_str ''abc'' = NaN"
    by (simp add: parseFloat_str_def scanDecimal_def scanUnsigned_def isWS_def isDigit_def)
  have p: "isPositive (JNum (Fin 100))" and e: "\<not> isExtremeValue (JNum (Fin 100))" by simp_all
  have v4: "isValidNumber (JStr ''4'')" by (simp add: isValidNumber_def s4)
  have vn: "\<not> isValidNumber JNull" by (simp add: isValidNumber_def)
  have v10: "isValidNumber (JNum (Fin 10))" by simp
  have vabc: "\<not> isValidNumber (JStr ''abc'')" by (simp add: isValidNumber_def sabc)
  from calculatePosition_modes[OF p e, of "JStr ''4''" "JNum (Fin 10)"] v4
  have a: "calculatePosition (JNum (Fin 100)) (JStr ''4'') (JNum (Fin 10))
       = Inr \<lparr>quantity_r = Some (Fin 25), stopLossAmount = Some (Fin 4),
               positionValue = None, stopLossPercent = None, calculationType = ''amount''\<rparr>"
    by (auto simp: s4)
  from calculatePosition_modes[OF p e, of JNull "JNum (Fin 10)"] vn v10
  have b: "calculatePosition (JNum (Fin 100)) JNull (JNum (Fin 10))
       = Inr \<lparr>quantity_r = None, stopLossAmount = None,
               positionValue = Some (Fin 1000), stopLossPercent = Some (Fin 10),
               calculationType = ''percent''\<rparr>"
    by auto
  from calculatePosition_modes[OF p e, of JNull "JStr ''abc''"] vn vabc
  have c: "calculatePosition (JNum (Fin 100)) JNull (JStr ''abc'') = Inl (Error EnterStopLoss)"
    by blast
  show ?thesis using p e v4 vn v10 vabc a b c by blast
qed

subsection \<open>Liquidation price and open price\<close>

lemma hex16: "parseFloat_str ''0x10'' = Fin 0" "stringToNumber ''0x10'' = Fin 16"
  by (simp_all add: parseFloat_str_def stringToNumber_def scanNonDecimal_def scanDecimal_def
        scanUnsigned_def scanExponent_def isWS_def isDigit_def digitsValue_def radixDigit_def
        radixValue_def)

text \<open>
  Claim C8 says that the price of a successful call is above the open price
  when the direction is short.  The code means to check the leverage whenever
  the custom initial margin is not used, as its comment says, but it decides
  the two with different readings of the argument.  For
  \<open>calculateLiquidation(-5, 100, 1, 0, "0x10")\<close> under the direction short, the
  comparison \<open>customInitialMargin <= 0\<close> reads the text as 16, so the leverage
  is not checked, while \<open>parseFloat\<close> reads it as 0, so the formula uses no
  custom margin and divides by the leverage -5, which is not positive: the
  call returns the initial margin -20 and the price 80, below the open price
  100.  Every number in this computation is an integer, so the exact
  arithmetic is that of the language here.
\<close>

theorem unchecked_leverage_short_price:
  "isShort (defaultConfig\<lparr>direction := ''short''\<rparr>)
   \<and> \<not> isPositive (JNum (Fin (- 5)))
   \<and> toNumber (JStr ''0x10'') = Fin 16 \<and> parseFloat (JStr ''0x10'') = Fin 0
   \<and> calculateLiquidation exactArith (defaultConfig\<lparr>direction := ''short''\<rparr>)
         (JNum (Fin (- 5))) (JNum (Fin 100)) (JNum (Fin 1)) (JNum (Fin 0)) (JStr ''0x10'')
       = Inr \<lparr>liquidationPrice = Fin 80, initialMargin = Fin (- 20), totalMargin = Fin (- 20),
               isWarning = True\<rparr>
   \<and> \<not> js_gt (Fin 80) (parseFloat (JNum (Fin 100)))"
  by (simp add: calculateLiquidation_def Let_def defaultNull_def isEmpty_def isLong_def isShort_def
        defaultConfig_def calculateShortLiquidationPrice_def orZero_def js_gt_def js_ge_def
        isNonNegative_def isExtremeValue_def isValidNumber_def hex16 exactArith_def)

theorem unchecked_leverage_short_price_witness:
  "\<exists>r. calculateLiquidation exactArith (defaultConfig\<lparr>direction := ''short''\<rparr>)
          (JNum (Fin (- 5))) (JNum (Fin 100)) (JNum (Fin 1)) (JNum (Fin 0)) (JStr ''0x10'') = Inr r
        \<and> js_lt (liquidationPrice r) (Fin 100) \<and> js_lt (totalMargin r) (Fin 0)"
  using unchecked_leverage_short_price by simp

subsection \<open>Custom initial margin and leverage\<close>

text \<open>
  Claim C10 says that a call with a custom initial margin greater than 0 and
  valid other inputs succeeds, and that the flag \<open>isWarning\<close> is true when the
  leverage is absent.  Under the direction long,
  \<open>calculateLiquidation(null, 100, 1, 0, 200)\<close> raises the error of the check
  on the result, the margin being more than the position is worth; and
  \<open>calculateLiquidation(undefined, 100, 1, 0, 20)\<close> returns with the flag
  false, since both comparisons with \<open>undefined\<close> are false.  The numbers
  are integers, so the exact arithmetic is that of the language here.
\<close>

theorem custom_margin_counterexample:
  "isPositive (JNum (Fin 200)) \<and> isPositive (JNum (Fin 100)) \<and> isPositive (JNum (Fin 1))
   \<and> isNonNegative (JNum (Fin 0))
   \<and> calculateLiquidation exactArith defaultConfig JNull (JNum (Fin 100)) (JNum (Fin 1))
        (JNum (Fin 0)) (JNum (Fin 200)) = Inl (Error InvalidResult)
   \<and> calculateLiquidation exactArith defaultConfig JUndefined (JNum (Fin 100)) (JNum (Fin 1))
        (JNum (Fin 0)) (JNum (Fin 20))
       = Inr \<lparr>liquidationPrice = Fin 80, initialMargin = Fin 20, totalMargin = Fin 20,
               isWarning = False\<rparr>"
  by (simp add: calculateLiquidation_def Let_def defaultNull_def isEmpty_def isLong_def
        defaultConfig_def calculateLongLiquidationPrice_def orZero_def js_gt_def js_sub_def
        exactArith_def)

text \<open>
  Claim C10, amended.  Let the custom initial margin, the open price and the
  quantity be positive, the added margin not negative, and none of the four
  extreme; let \<open>mv\<close>, \<open>ov\<close>, \<open>qv\<close>, \<open>av\<close> be their numbers.  Then, in every
  arithmetic, the leverage is not checked, whatever it is: the only error the
  call can raise is the one of the check on the result, which it raises when
  the price it computed is not a finite number greater than 0; otherwise it
  returns the initial margin \<open>mv\<close>, the total margin \<open>mv + av\<close> and the price
  \<open>ov - (mv + av) / qv\<close> (long) or \<open>ov + (mv + av) / qv\<close>, none of which
  depends on the leverage, with the flag \<open>isWarning\<close> equal to
  \<open>leverage < 1 || leverage > 125\<close> on the leverage as it came.  That flag is
  true for \<open>null\<close> and for the empty text, and false for \<open>undefined\<close>.
\<close>

theorem custom_margin_skips_leverage:
  assumes pc: "isPositive cim" and po: "isPositive opn" and pq: "isPositive qty"
    and na: "isNonNegative add"
    and ex: "\<not> isExtremeValue cim" "\<not> isExtremeValue opn" "\<not> isExtremeValue qty"
            "\<not> isExtremeValue add"
  shows "\<exists>mv ov qv av.
           parseFloat cim = Fin mv \<and> 0 < mv \<and> parseFloat opn = Fin ov \<and> 0 < ov
         \<and> parseFloat qty = Fin qv \<and> 0 < qv \<and> parseFloat add = Fin av \<and> 0 \<le> av
         \<and> (let tm = num_add ar (Fin mv) (Fin av);
                 lp = (if isLong c then num_sub ar (Fin ov) (num_div ar tm (Fin qv))
                       else num_add ar (Fin ov) (num_div ar tm (Fin qv)))
             in calculateLiquidation ar c lev opn qty add cim =
                  (if isFinite_num lp \<and> js_gt lp (Fin 0)
                   then Inr \<lparr>liquidationPrice = lp, initialMargin = Fin mv, totalMargin = tm,
                             isWarning = (js_lt (toNumber lev) (Fin 1)
                                          \<or> js_gt (toNumber lev) (Fin 125))\<rparr>
                   else Inl (Error InvalidResult)))
         \<and> (lev = JNull \<or> lev = JStr [] \<longrightarrow>
               (js_lt (toNumber lev) (Fin 1) \<or> js_gt (toNumber lev) (Fin 125)))
         \<and> (lev = JUndefined \<longrightarrow>
               \<not> (js_lt (toNumber lev) (Fin 1) \<or> js_gt (toNumber lev) (Fin 125)))"
proof -
  from isPositive_num[OF pc] obtain mv where
    mv: "0 < mv" "parseFloat cim = Fin mv" "toNumber cim = Fin mv" by blast
  have valid: "isValidNumber cim" using pc by (simp add: isPositive_def)
  have dn: "defaultNull cim = cim" "cim \<noteq> JNull"
    using valid by (auto simp: defaultNull_def isValidNumber_def)
  have nc: "defaultNull cim \<noteq> JNull \<longrightarrow> isNonNegative (defaultNull cim)"
    using pc mv by (simp add: dn isPositive_def isNonNegative_def js_ge_def)
  have e4: "defaultNull cim \<noteq> JNull \<longrightarrow> \<not> isExtremeValue (defaultNull cim)"
    using ex(1) by (simp add: dn)
  have lv: "defaultNull cim = JNull \<or> js_le (toNumber (defaultNull cim)) (Fin 0)
               \<longrightarrow> isPositive lev"
    using mv by (simp add: dn)
  from calculateLiquidation_checked[OF po pq na nc ex(2) ex(3) ex(4) e4 lv, of ar c]
  obtain ov qv av where
    n: "parseFloat opn = Fin ov" "0 < ov" "parseFloat qty = Fin qv" "0 < qv"
       "parseFloat add = Fin av" "0 \<le> av"
    and b: "(let custom = defaultNull cim;
                 im = (if custom \<noteq> JNull \<and> js_gt (parseFloat custom) (Fin 0)
                       then parseFloat custom
                       else num_div ar (num_mul ar (Fin qv) (Fin ov)) (orZero (parseFloat lev)));
                 tm = num_add ar im (Fin av);
                 lp = (if isLong c then num_sub ar (Fin ov) (num_div ar tm (Fin qv))
                       else num_add ar (Fin ov) (num_div ar tm (Fin qv)))
             in calculateLiquidation ar c lev opn qty add cim =
                  (if isFinite_num lp \<and> js_gt lp (Fin 0)
                   then Inr \<lparr>liquidationPrice = lp, initialMargin = im, totalMargin = tm,
                             isWarning = (js_lt (toNumber lev) (Fin 1)
                                          \<or> js_gt (toNumber lev) (Fin 125))\<rparr>
                   else Inl (Error InvalidResult))
              \<and> (custom = JNull \<or> js_le (toNumber custom) (Fin 0) \<longrightarrow>
                   (\<exists>lv. 0 < lv \<and> parseFloat lev = Fin lv
                       \<and> im = num_div ar (num_mul ar (Fin qv) (Fin ov)) (Fin lv))))"
    by blast
  have im: "(if defaultNull cim \<noteq> JNull \<and> js_gt (parseFloat (defaultNull cim)) (Fin 0)
                       then parseFloat (defaultNull cim)
                       else num_div ar (num_mul ar (Fin qv) (Fin ov)) (orZero (parseFloat lev)))
            = Fin mv"
    using mv dn by (simp add: js_gt_def)
  let ?tm = "num_add ar (Fin mv) (Fin av)"
  let ?lp = "(if isLong c then num_sub ar (Fin ov) (num_div ar ?tm (Fin qv))
                       else num_add ar (Fin ov) (num_div ar ?tm (Fin qv)))"
  from b have calc: "calculateLiquidation ar c lev opn qty add cim =
                  (if isFinite_num ?lp \<and> js_gt ?lp (Fin 0)
                   then Inr \<lparr>liquidationPrice = ?lp, initialMargin = Fin mv, totalMargin = ?tm,
                             isWarning = (js_lt (toNumber lev) (Fin 1)
                                          \<or> js_gt (toNumber lev) (Fin 125))\<rparr>
                   else Inl (Error InvalidResult))"
    unfolding Let_def im by (rule conjunct1)
  have w1: "lev = JNull \<or> lev = JStr [] \<longrightarrow>
               (js_lt (toNumber lev) (Fin 1) \<or> js_gt (toNumber lev) (Fin 125))"
    by (auto simp: stringToNumber_def)
  have w2: "lev = JUndefined \<longrightarrow>
               \<not> (js_lt (toNumber lev) (Fin 1) \<or> js_gt (toNumber lev) (Fin 125))"
    by (auto simp: js_gt_def)
  show ?thesis
    unfolding Let_def
    using mv(2,1) n calc w1 w2
    by (intro exI[of _ mv] exI[of _ ov] exI[of _ qv] exI[of _ av] conjI) assumption+
qed

theorem custom_margin_skips_leverage_witness:
  "calculateLiquidation exactArith defaultConfig JNull (JNum (Fin 100)) (JNum (Fin 1))
        (JNum (Fin 0)) (JNum (Fin 20))
     = Inr \<lparr>liquidationPrice = Fin 80, initialMargin = Fin 20, totalMargin = Fin 20,
             isWarning = True\<rparr>
   \<and> calculateLiquidation exactArith defaultConfig JUndefined (JNum (Fin 100)) (JNum (Fin 1))
        (JNum (Fin 0)) (JNum (Fin 20))
     = Inr \<lparr>liquidationPrice = Fin 80, initialMargin = Fin 20, totalMargin = Fin 20,
             isWarning = False\<rparr>
   \<and> calculateLiquidation exactArith defaultConfig (JStr ''abc'') (JNum (Fin 100))
        (JNum (Fin 1)) (JNum (Fin 0)) (JNum (Fin 200))
     = Inl (Error InvalidResult)"
proof -
  have l: "isLong defaultConfig" by (simp add: isLong_def defaultConfig_def)
  have p: "isPositive (JNum (Fin 20))" "isPositive (JNum (Fin 100))" "isPositive (JNum (Fin 1))"
    and p2: "isPositive (JNum (Fin 200))"
    and n: "isNonNegative (JNum (Fin 0))"
    and e: "\<not> isExtremeValue (JNum (Fin 20))" "\<not> isExtremeValue (JNum (Fin 100))"
       "\<not> isExtremeValue (JNum (Fin 1))" "\<not> isExtremeValue (JNum (Fin 0))"
    and e2: "\<not> isExtremeValue (JNum (Fin 200))"
    by simp_all
  from custom_margin_skips_leverage[OF p n e, of exactArith defaultConfig JNull] l
  have a: "calculateLiquidation exactArith defaultConfig JNull (JNum (Fin 100)) (JNum (Fin 1))
        (JNum (Fin 0)) (JNum (Fin 20))
     = Inr \<lparr>liquidationPrice = Fin 80, initialMargin = Fin 20, totalMargin = Fin 20,
             isWarning = True\<rparr>"
    by (auto simp: exactArith_def js_sub_def js_gt_def Let_def)
  from custom_margin_skips_leverage[OF p n e, of exactArith defaultConfig JUndefined] l
  have b: "calculateLiquidation exactArith defaultConfig JUndefined (JNum (Fin 100)) (JNum (Fin 1))
        (JNum (Fin 0)) (JNum (Fin 20))
     = Inr \<lparr>liquidationPrice = Fin 80, initialMargin = Fin 20, totalMargin = Fin 20,
             isWarning = False\<rparr>"
    by (auto simp: exactArith_def js_sub_def js_gt_def Let_def)
  from custom_margin_skips_leverage[OF p2 p(2) p(3) n e2 e(2) e(3) e(4),
        of exactArith defaultConfig "JStr ''abc''"] l
  have c: "calculateLiquidation exactArith defaultConfig (JStr ''abc'') (JNum (Fin 100))
        (JNum (Fin 1)) (JNum (Fin 0)) (JNum (Fin 200))
     = Inl (Error InvalidResult)"
    by (auto simp: exactArith_def js_sub_def js_gt_def Let_def)
  from a b c show ?thesis by blast
qed

subsection \<open>Setters of the configuration\<close>

lemma invoke_frame [simp]:
  "conf (invoke key v l sys) = conf sys"
  "listeners (invoke key v l sys) = listeners sys"
  "calls (invoke key v l sys) = calls sys @ [(lid l, key, v)]"
  by (simp_all add: invoke_def Let_def logError_def split: option.splits)

lemma notifyEach_frame [simp]:
  "conf (notifyEach key v ls sys) = conf sys"
  "listeners (notifyEach key v ls sys) = listeners sys"
  "calls (notifyEach key v ls sys) = calls sys @ map (\<lambda>l. (lid l, key, v)) ls"
  by (induction ls arbitrary: sys) simp_all


lemma logError_frame [simp]:
  "conf (logError e sys) = conf sys"
  "listeners (logError e sys) = listeners sys"
  "calls (logError e sys) = calls sys"
  "app (env (logError e sys)) = app (env sys)"
  "console (env (logError e sys)) = console (env sys) @ [e]"
  by (simp_all add: logError_def)

lemma rate_accepted:
  assumes "\<not> isNaN n" "\<not> js_lt n (Fin 0)"
  shows "js_ge (js_div n (Fin 100)) (Fin 0)"
  using assms by (cases n) (simp_all add: js_ge_def)

text \<open>
  Claim C6 says that the rate setters reject an input that is not numeric, and
  that an accepted input is stored divided by 100.  The setters test the number
  that \<open>parseFloat\<close> reads, which is not the test of the validator:
  \<open>setMakerFeeRate("50abc")\<close>, whose argument is no valid number, stores the
  rate 0.5 and notifies the three listeners of the sample system; and
  \<open>setTakerFeeRate("0x10")\<close>, whose argument is a valid number of value 16,
  stores the rate 0.
\<close>

theorem nonnumeric_rate_counterexample:
  "\<not> isValidNumber (JStr ''50abc'')
   \<and> makerFeeRate (conf sampleSystem) = Fin (2 / 10000)
   \<and> makerFeeRate (conf (setMakerFeeRate (JStr ''50abc'') sampleSystem)) = Fin (1 / 2)
   \<and> calls (setMakerFeeRate (JStr ''50abc'') sampleSystem)
       = [(1, ''makerFeeRate'', NValue (JNum (Fin (1 / 2)))),
          (2, ''makerFeeRate'', NValue (JNum (Fin (1 / 2)))),
          (3, ''makerFeeRate'', NValue (JNum (Fin (1 / 2))))]
   \<and> isValidNumber (JStr ''0x10'') \<and> toNumber (JStr ''0x10'') = Fin 16
   \<and> takerFeeRate (conf (setTakerFeeRate (JStr ''0x10'') sampleSystem)) = Fin 0"
proof -
  have t: "parseFloat_str ''50abc'' = Fin 50" "stringToNumber ''50abc'' = NaN"
    by (simp_all add: parseFloat_str_def stringToNumber_def scanNonDecimal_def scanDecimal_def
          scanUnsigned_def scanExponent_def isWS_def isDigit_def digitsValue_def)
  have s: "conf sampleSystem = defaultConfig" "calls sampleSystem = []"
    "listeners sampleSystem = [noteListener 1, failingListener 2, noteListener 3]"
    by (simp_all add: sampleSystem_def addConfigListener_def)
  have a: "\<not> isValidNumber (JStr ''50abc'')" by (simp add: isValidNumber_def t)
  have b: "makerFeeRate (conf sampleSystem) = Fin (2 / 10000)"
    by (simp add: s defaultConfig_def)
  have c: "makerFeeRate (conf (setMakerFeeRate (JStr ''50abc'') sampleSystem)) = Fin (1 / 2)"
    by (simp add: setMakerFeeRate_def Let_def notifyListeners_def t)
  have d: "calls (setMakerFeeRate (JStr ''50abc'') sampleSystem)
       = [(1, ''makerFeeRate'', NValue (JNum (Fin (1 / 2)))),
          (2, ''makerFeeRate'', NValue (JNum (Fin (1 / 2)))),
          (3, ''makerFeeRate'', NValue (JNum (Fin (1 / 2))))]"
    by (simp add: setMakerFeeRate_def Let_def notifyListeners_def t s noteListener_def
          failingListener_def)
  have e: "isValidNumber (JStr ''0x10'')" "toNumber (JStr ''0x10'') = Fin 16"
    by (simp_all add: isValidNumber_def hex16)
  have f: "takerFeeRate (conf (setTakerFeeRate (JStr ''0x10'') sampleSystem)) = Fin 0"
    by (simp add: setTakerFeeRate_def Let_def notifyListeners_def hex16)
  from a b c d e f show ?thesis by blast
qed

text \<open>
  Claim C6, amended.  A setter is a function from states to states, so a call
  of it returns in every case.  \<open>setDirection\<close> with a value that is neither
  \<open>long\<close> nor \<open>short\<close>, and \<open>setMakerFeeRate\<close> and \<open>setTakerFeeRate\<close> with
  an input that \<open>parseFloat\<close> reads as no number or as a negative number, leave
  the settings, the listeners and the state outside the configuration as they
  were, call no listener, and print one line on the console.  With any other
  input the two rate setters store the number that \<open>parseFloat\<close> reads from
  the input, divided by 100.  If both
  rates are at least 0 before a call of one of the three setters, with any
  input, or of \<open>resetConfig\<close>, they are at least 0 after it.
\<close>

theorem setters_reject:
  "(d \<noteq> JStr ''long'' \<and> d \<noteq> JStr ''short'' \<longrightarrow>
      conf (setDirection d sys) = conf sys \<and> calls (setDirection d sys) = calls sys
    \<and> listeners (setDirection d sys) = listeners sys
    \<and> app (env (setDirection d sys)) = app (env sys)
    \<and> console (env (setDirection d sys)) = console (env sys) @ [InvalidDirection d])
 \<and> (isNaN (parseFloat r) \<or> js_lt (parseFloat r) (Fin 0) \<longrightarrow>
      conf (setMakerFeeRate r sys) = conf sys \<and> calls (setMakerFeeRate r sys) = calls sys
    \<and> listeners (setMakerFeeRate r sys) = listeners sys
    \<and> app (env (setMakerFeeRate r sys)) = app (env sys)
    \<and> console (env (setMakerFeeRate r sys)) = console (env sys) @ [InvalidMakerFeeRate r]
    \<and> conf (setTakerFeeRate r sys) = conf sys \<and> calls (setTakerFeeRate r sys) = calls sys
    \<and> listeners (setTakerFeeRate r sys) = listeners sys
    \<and> app (env (setTakerFeeRate r sys)) = app (env sys)
    \<and> console (env (setTakerFeeRate r sys)) = console (env sys) @ [InvalidTakerFeeRate r])
 \<and> (\<not> isNaN (parseFloat r) \<and> \<not> js_lt (parseFloat r) (Fin 0) \<longrightarrow>
      conf (setMakerFeeRate r sys) = (conf sys)\<lparr>makerFeeRate := js_div (parseFloat r) (Fin 100)\<rparr>
    \<and> conf (setTakerFeeRate r sys) = (conf sys)\<lparr>takerFeeRate := js_div (parseFloat r) (Fin 100)\<rparr>)
 \<and> (js_ge (makerFeeRate (conf sys)) (Fin 0) \<and> js_ge (takerFeeRate (conf sys)) (Fin 0) \<longrightarrow>
      (\<forall>s' \<in> {setDirection d sys, setMakerFeeRate r sys, setTakerFeeRate r sys, resetConfig sys}.
         js_ge (makerFeeRate (conf s')) (Fin 0) \<and> js_ge (takerFeeRate (conf s')) (Fin 0)))"
proof -
  have dir: "makerFeeRate (conf (setDirection d sys)) = makerFeeRate (conf sys)"
            "takerFeeRate (conf (setDirection d sys)) = takerFeeRate (conf sys)"
    by (simp_all add: setDirection_def notifyListeners_def)
  have rst: "js_ge (makerFeeRate (conf (resetConfig sys))) (Fin 0)"
            "js_ge (takerFeeRate (conf (resetConfig sys))) (Fin 0)"
    by (simp_all add: resetConfig_def Let_def notifyListeners_def defaultConfig_def js_ge_def)
  have rej: "setMakerFeeRate r sys = logError (InvalidMakerFeeRate r) sys
    \<and> setTakerFeeRate r sys = logError (InvalidTakerFeeRate r) sys"
    if "isNaN (parseFloat r) \<or> js_lt (parseFloat r) (Fin 0)"
    using that by (simp add: setMakerFeeRate_def setTakerFeeRate_def Let_def)
  have acc: "conf (setMakerFeeRate r sys) = (conf sys)\<lparr>makerFeeRate := js_div (parseFloat r) (Fin 100)\<rparr>
    \<and> conf (setTakerFeeRate r sys) = (conf sys)\<lparr>takerFeeRate := js_div (parseFloat r) (Fin 100)\<rparr>"
    if "\<not> isNaN (parseFloat r) \<and> \<not> js_lt (parseFloat r) (Fin 0)"
    using that by (simp add: setMakerFeeRate_def setTakerFeeRate_def Let_def notifyListeners_def)
  have p1: "d \<noteq> JStr ''long'' \<and> d \<noteq> JStr ''short'' \<longrightarrow>
      conf (setDirection d sys) = conf sys \<and> calls (setDirection d sys) = calls sys
    \<and> listeners (setDirection d sys) = listeners sys
    \<and> app (env (setDirection d sys)) = app (env sys)
    \<and> console (env (setDirection d sys)) = console (env sys) @ [InvalidDirection d]"
    by (simp add: setDirection_def)
  have p2: "isNaN (parseFloat r) \<or> js_lt (parseFloat r) (Fin 0) \<longrightarrow>
      conf (setMakerFeeRate r sys) = conf sys \<and> calls (setMakerFeeRate r sys) = calls sys
    \<and> listeners (setMakerFeeRate r sys) = listeners sys
    \<and> app (env (setMakerFeeRate r sys)) = app (env sys)
    \<and> console (env (setMakerFeeRate r sys)) = console (env sys) @ [InvalidMakerFeeRate r]
    \<and> conf (setTakerFeeRate r sys) = conf sys \<and> calls (setTakerFeeRate r sys) = calls sys
    \<and> listeners (setTakerFeeRate r sys) = listeners sys
    \<and> app (env (setTakerFeeRate r sys)) = app (env sys)
    \<and> console (env (setTakerFeeRate r sys)) = console (env sys) @ [InvalidTakerFeeRate r]"
  proof
    assume "isNaN (parseFloat r) \<or> js_lt (parseFloat r) (Fin 0)"
    from rej[OF this] show "conf (setMakerFeeRate r sys) = conf sys \<and> calls (setMakerFeeRate r sys) = calls sys
    \<and> listeners (setMakerFeeRate r sys) = listeners sys
    \<and> app (env (setMakerFeeRate r sys)) = app (env sys)
    \<and> console (env (setMakerFeeRate r sys)) = console (env sys) @ [InvalidMakerFeeRate r]
    \<and> conf (setTakerFeeRate r sys) = conf sys \<and> calls (setTakerFeeRate r sys) = calls sys
    \<and> listeners (setTakerFeeRate r sys) = listeners sys
    \<and> app (env (setTakerFeeRate r sys)) = app (env sys)
    \<and> console (env (setTakerFeeRate r sys)) = console (env sys) @ [InvalidTakerFeeRate r]"
      by simp
  qed
  have p3: "\<not> isNaN (parseFloat r) \<and> \<not> js_lt (parseFloat r) (Fin 0) \<longrightarrow>
      conf (setMakerFeeRate r sys) = (conf sys)\<lparr>makerFeeRate := js_div (parseFloat r) (Fin 100)\<rparr>
    \<and> conf (setTakerFeeRate r sys) = (conf sys)\<lparr>takerFeeRate := js_div (parseFloat r) (Fin 100)\<rparr>"
    using acc by (rule impI)
  have inv: "js_ge (makerFeeRate (conf s')) (Fin 0) \<and> js_ge (takerFeeRate (conf s')) (Fin 0)"
    if i: "js_ge (makerFeeRate (conf sys)) (Fin 0) \<and> js_ge (takerFeeRate (conf sys)) (Fin 0)"
    and s': "s' = setDirection d sys \<or> s' = setMakerFeeRate r sys \<or> s' = setTakerFeeRate r sys
             \<or> s' = resetConfig sys"
    for s'
  proof (cases "isNaN (parseFloat r) \<or> js_lt (parseFloat r) (Fin 0)")
    case True
    from rej[OF True] have "conf (setMakerFeeRate r sys) = conf sys"
      "conf (setTakerFeeRate r sys) = conf sys" by simp_all
    with s' i dir rst show ?thesis by (elim disjE) simp_all
  next
    case False
    then have a: "\<not> isNaN (parseFloat r) \<and> \<not> js_lt (parseFloat r) (Fin 0)" by simp
    from a have g: "js_ge (js_div (parseFloat r) (Fin 100)) (Fin 0)" by (simp add: rate_accepted)
    from acc[OF a] have "makerFeeRate (conf (setMakerFeeRate r sys)) = js_div (parseFloat r) (Fin 100)"
      "takerFeeRate (conf (setMakerFeeRate r sys)) = takerFeeRate (conf sys)"
      "takerFeeRate (conf (setTakerFeeRate r sys)) = js_div (parseFloat r) (Fin 100)"
      "makerFeeRate (conf (setTakerFeeRate r sys)) = makerFeeRate (conf sys)"
      by simp_all
    with s' i dir g rst show ?thesis by (elim disjE) simp_all
  qed
  have p4: "js_ge (makerFeeRate (conf sys)) (Fin 0) \<and> js_ge (takerFeeRate (conf sys)) (Fin 0) \<longrightarrow>
      (\<forall>s' \<in> {setDirection d sys, setMakerFeeRate r sys, setTakerFeeRate r sys, resetConfig sys}.
         js_ge (makerFeeRate (conf s')) (Fin 0) \<and> js_ge (takerFeeRate (conf s')) (Fin 0))"
  proof (intro impI ballI)
    fix s'
    assume i: "js_ge (makerFeeRate (conf sys)) (Fin 0) \<and> js_ge (takerFeeRate (conf sys)) (Fin 0)"
      and "s' \<in> {setDirection d sys, setMakerFeeRate r sys, setTakerFeeRate r sys, resetConfig sys}"
    then have "s' = setDirection d sys \<or> s' = setMakerFeeRate r sys \<or> s' = setTakerFeeRate r sys
               \<or> s' = resetConfig sys"
      by simp
    from inv[OF i this]
    show "js_ge (makerFeeRate (conf s')) (Fin 0) \<and> js_ge (takerFeeRate (conf s')) (Fin 0)" .
  qed
  show ?thesis by (rule conjI[OF p1 conjI[OF p2 conjI[OF p3 p4]]])
qed

theorem setters_reject_witness:
  "conf (setDirection (JStr ''up'') sampleSystem) = conf sampleSystem
   \<and> calls (setDirection (JStr ''up'') sampleSystem) = []
   \<and> conf (setMakerFeeRate (JNum (Fin (- 1))) sampleSystem) = conf sampleSystem
   \<and> calls (setTakerFeeRate (JNull) sampleSystem) = []
   \<and> makerFeeRate (conf (setMakerFeeRate (JNum (Fin (3 / 100))) sampleSystem)) = Fin (3 / 10000)
   \<and> js_ge (takerFeeRate (conf (setTakerFeeRate (JNum (Fin (3 / 100))) sampleSystem))) (Fin 0)"
proof -
  have c0: "calls sampleSystem = []" "conf sampleSystem = defaultConfig"
    by (simp_all add: sampleSystem_def addConfigListener_def)
  have i: "js_ge (makerFeeRate (conf sampleSystem)) (Fin 0)
           \<and> js_ge (takerFeeRate (conf sampleSystem)) (Fin 0)"
    by (simp add: c0 defaultConfig_def js_ge_def)
  from setters_reject[of "JStr ''up''" sampleSystem "JNum (Fin (- 1))"]
  have a: "conf (setDirection (JStr ''up'') sampleSystem) = conf sampleSystem
      \<and> calls (setDirection (JStr ''up'') sampleSystem) = []
      \<and> conf (setMakerFeeRate (JNum (Fin (- 1))) sampleSystem) = conf sampleSystem"
    by (simp add: c0)
  from setters_reject[of "JStr ''up''" sampleSystem JNull]
  have b: "calls (setTakerFeeRate (JNull) sampleSystem) = []"
    by (simp add: c0)
  from setters_reject[of "JStr ''up''" sampleSystem "JNum (Fin (3 / 100))"] i
  have c: "makerFeeRate (conf (setMakerFeeRate (JNum (Fin (3 / 100))) sampleSystem)) = Fin (3 / 10000)
     \<and> js_ge (takerFeeRate (conf (setTakerFeeRate (JNum (Fin (3 / 100))) sampleSystem))) (Fin 0)"
    by (simp add: js_ge_def)
  from a b c show ?thesis by simp
qed

subsection \<open>Notification\<close>





subsection \<open>Average entry price\<close>

lemma js_add_zero [simp]: "js_add (Fin 0) x = x" "js_add x (Fin 0) = x"
  by (cases x; simp)+

lemma js_add_assoc: "js_add (js_add a b) c = js_add a (js_add b c)"
  by (cases a; cases b; cases c) simp_all

lemma foldl_totals:
  "foldl (\<lambda>(tq, tc) position.
            (js_add tq (quantity position), js_add tc (totalCost position))) (a, b) ps
   = (js_add a (js_sum (map quantity ps)), js_add b (js_sum (map totalCost ps)))"
  by (induction ps arbitrary: a b) (simp_all add: js_add_assoc)

lemma isEmpty_JNum [simp]: "\<not> isEmpty (JNum n)"
  by (simp add: isEmpty_def)

lemma inBounds_checks:
  "inBounds n = (isValidNumber (JNum n) \<and> isPositive (JNum n) \<and> \<not> isExtremeValue (JNum n))"
  by (cases n) auto

lemma addPosition_acceptable:
  assumes "inBounds q" "inBounds p"
  shows "addPosition c (JNum q) (JNum p) t =
           Inr (recreate (makerFeeRate c) (clock t (reads t)) q p,
                t\<lparr>positions := positions t @ [recreate (makerFeeRate c) (clock t (reads t)) q p],
                  reads := Suc (reads t)\<rparr>)"
  using assms unfolding inBounds_checks addPosition_def
  by (simp add: Let_def recreate_def)

lemma addPosition_rejected:
  assumes "\<not> (inBounds q \<and> inBounds p)"
  shows "\<exists>err. addPosition c (JNum q) (JNum p) t = Inl err"
  using assms unfolding inBounds_checks addPosition_def
  by (auto simp: Let_def isPositive_def)

lemma addPosition_Inr:
  assumes "addPosition c q p t = Inr (r, t')"
  shows "r = recreate (makerFeeRate c) (clock t (reads t)) (parseFloat q) (parseFloat p)
       \<and> inBounds (parseFloat q) \<and> inBounds (parseFloat p)
       \<and> t' = t\<lparr>positions := positions t @ [r], reads := Suc (reads t)\<rparr>"
proof -
  from assms have pq: "isPositive q" and pp: "isPositive p"
    and ex: "\<not> isExtremeValue q" "\<not> isExtremeValue p"
    and res: "r = recreate (makerFeeRate c) (clock t (reads t)) (parseFloat q) (parseFloat p)"
             "t' = t\<lparr>positions := positions t @ [r], reads := Suc (reads t)\<rparr>"
    unfolding addPosition_def by (auto simp: Let_def recreate_def split: if_splits)
  from isPositive_num[OF pq] obtain qv where qv: "0 < qv" "parseFloat q = Fin qv" by blast
  from isPositive_num[OF pp] obtain pv where pv: "0 < pv" "parseFloat p = Fin pv" by blast
  have "qv \<le> 10 ^ 15" using ex(1) pq qv by (simp add: isExtremeValue_def isPositive_def js_gt_def)
  moreover have "pv \<le> 10 ^ 15" using ex(2) pp pv by (simp add: isExtremeValue_def isPositive_def js_gt_def)
  ultimately show ?thesis using res qv pv by simp
qed

lemma acceptable_recreate [simp]: "acceptable (recreate rate i q p) = (inBounds q \<and> inBounds p)"
  by (simp add: acceptable_def recreate_def)

lemma readdAll_result:
  "positions (app (readdAll c olds e)) =
      positions (app e) @ map (\<lambda>(k, p). recreate (makerFeeRate c) (clock (app e) k) (quantity p) (price p))
                            (enumerate (reads (app e)) (filter acceptable olds))
   \<and> clock (app (readdAll c olds e)) = clock (app e)
   \<and> reads (app (readdAll c olds e)) = reads (app e) + length (filter acceptable olds)
   \<and> (\<exists>errs. console (readdAll c olds e) = console e @ map RecalcError errs
             \<and> length errs = length (filter (\<lambda>p. \<not> acceptable p) olds))"
proof (induction olds arbitrary: e)
  case Nil
  then show ?case by simp
next
  case (Cons p olds)
  show ?case
  proof (cases "acceptable p")
    case True
    then have b: "inBounds (quantity p)" "inBounds (price p)" by (simp_all add: acceptable_def)
    let ?r = "recreate (makerFeeRate c) (clock (app e) (reads (app e))) (quantity p) (price p)"
    let ?e = "e\<lparr>app := (app e)\<lparr>positions := positions (app e) @ [?r], reads := Suc (reads (app e))\<rparr>\<rparr>"
    have step: "readdAll c (p # olds) e = readdAll c olds ?e"
      by (simp add: addPosition_acceptable[OF b])
    from Cons.IH[of ?e] True show ?thesis unfolding step by simp
  next
    case False
    then have "\<not> (inBounds (quantity p) \<and> inBounds (price p))" by (simp add: acceptable_def)
    from addPosition_rejected[OF this] obtain err where
      "addPosition c (JNum (quantity p)) (JNum (price p)) (app e) = Inl err" by blast
    then have step: "readdAll c (p # olds) e = readdAll c olds (e\<lparr>console := console e @ [RecalcError err]\<rparr>)"
      by simp
    from Cons.IH[of "e\<lparr>console := console e @ [RecalcError err]\<rparr>"]
    obtain errs where
      i: "positions (app (readdAll c olds (e\<lparr>console := console e @ [RecalcError err]\<rparr>))) =
            positions (app e) @ map (\<lambda>(k, p). recreate (makerFeeRate c) (clock (app e) k) (quantity p) (price p))
                            (enumerate (reads (app e)) (filter acceptable olds))"
         "clock (app (readdAll c olds (e\<lparr>console := console e @ [RecalcError err]\<rparr>))) = clock (app e)"
         "reads (app (readdAll c olds (e\<lparr>console := console e @ [RecalcError err]\<rparr>)))
            = reads (app e) + length (filter acceptable olds)"
         "console (readdAll c olds (e\<lparr>console := console e @ [RecalcError err]\<rparr>))
            = (console e @ [RecalcError err]) @ map RecalcError errs"
         "length errs = length (filter (\<lambda>p. \<not> acceptable p) olds)"
      by auto
    have "console (readdAll c (p # olds) e) = console e @ map RecalcError (err # errs)
          \<and> length (err # errs) = length (filter (\<lambda>p. \<not> acceptable p) (p # olds))"
      unfolding step using i(4,5) False by simp
    then have "\<exists>errs. console (readdAll c (p # olds) e) = console e @ map RecalcError errs
             \<and> length errs = length (filter (\<lambda>p. \<not> acceptable p) (p # olds))"
      by blast
    then show ?thesis unfolding step[symmetric] using i(1,2,3) False step by simp
  qed
qed

lemma enumerate_snd_mem: "(k, p) \<in> set (enumerate n xs) \<Longrightarrow> p \<in> set xs"
  by (metis in_set_zipE enumerate_eq_zip)

lemma reachable_acceptable: "reachable t \<Longrightarrow> list_all acceptable (positions t)"
proof (induction rule: reachable.induct)
  case (start k)
  then show ?case by simp
next
  case (add t c q p r t')
  from addPosition_Inr[OF add.hyps(2)] add.IH show ?case by auto
next
  case (remove t i)
  then show ?case by (simp add: removePosition_def list_all_iff)
next
  case (clear t)
  then show ?case by (simp add: clearPositions_def)
next
  case (recalc t c key v cs)
  show ?case
  proof (cases "key = ''makerFeeRate''")
    case True
    let ?e = "\<lparr>app = t\<lparr>positions := []\<rparr>, console = cs\<rparr>"
    have "positions (app (readdAll c (positions t) ?e)) =
      map (\<lambda>(k, p). recreate (makerFeeRate c) (clock t k) (quantity p) (price p))
                            (enumerate (reads t) (filter acceptable (positions t)))"
      using readdAll_result[of c "positions t" ?e] by simp
    moreover have "list_all acceptable (map (\<lambda>(k, p). recreate (makerFeeRate c) (clock t k) (quantity p) (price p))
                            (enumerate (reads t) (filter acceptable (positions t))))"
      by (auto simp: list_all_iff acceptable_def recreate_def dest!: enumerate_snd_mem)
    ultimately show ?thesis using True by (simp add: averagePriceListener_def Let_def)
  next
    case False
    with recalc.IH show ?thesis by (simp add: averagePriceListener_def)
  qed
qed

lemma js_sum_quantities:
  "list_all acceptable ps \<Longrightarrow> ps \<noteq> [] \<Longrightarrow> \<exists>s. 0 < s \<and> js_sum (map quantity ps) = Fin s"
proof (induction ps)
  case Nil
  then show ?case by simp
next
  case (Cons p ps)
  from Cons.prems(1) obtain q where q: "quantity p = Fin q" "0 < q"
    by (cases "quantity p") (auto simp: acceptable_def)
  show ?case
  proof (cases "ps = []")
    case True
    with q show ?thesis by simp
  next
    case False
    with Cons obtain s where "0 < s" "js_sum (map quantity ps) = Fin s" by auto
    with q show ?thesis by (simp add: add_pos_pos)
  qed
qed

text \<open>
  Claim C4.  In every state that the module can reach: \<open>calculateAveragePrice\<close>
  raises exactly when the list of records is empty, so it raises after
  \<open>clearPositions\<close>; when the list is not empty it returns, as total quantity,
  the sum of the quantities of the records, as total cost, the sum of their total
  costs, and as average price the total cost divided by the total quantity; and
  a record made by \<open>addPosition\<close> has the numbers of the two arguments as
  quantity and price, the price times the maker fee rate of the moment as fee,
  price plus fee as actual cost, quantity times actual cost as total cost, and
  is put at the end of the list.
\<close>

theorem calculateAveragePrice_sums:
  assumes r: "reachable t"
  shows "((\<exists>e. calculateAveragePrice t = Inl e) \<longleftrightarrow> positions t = [])
       \<and> calculateAveragePrice (clearPositions t) = Inl (Error NoRecords)
       \<and> (positions t \<noteq> [] \<longrightarrow>
            calculateAveragePrice t =
              Inr \<lparr>averagePrice = js_div (js_sum (map totalCost (positions t)))
                                          (js_sum (map quantity (positions t))),
                   totalQuantity = js_sum (map quantity (positions t)),
                   totalCost_r = js_sum (map totalCost (positions t))\<rparr>)
       \<and> (\<forall>c q p rec t'. addPosition c q p t = Inr (rec, t') \<longrightarrow>
              quantity rec = parseFloat q \<and> price rec = parseFloat p
            \<and> fee rec = js_mul (price rec) (makerFeeRate c)
            \<and> actualCost rec = js_add (price rec) (fee rec)
            \<and> totalCost rec = js_mul (quantity rec) (actualCost rec)
            \<and> positions t' = positions t @ [rec])"
proof -
  have p1: "(\<exists>e. calculateAveragePrice t = Inl e) \<longleftrightarrow> positions t = []"
    by (auto simp: calculateAveragePrice_def Let_def)
  have p2: "calculateAveragePrice (clearPositions t) = Inl (Error NoRecords)"
    by (simp add: calculateAveragePrice_def clearPositions_def)
  have p3: "positions t \<noteq> [] \<longrightarrow>
            calculateAveragePrice t =
              Inr \<lparr>averagePrice = js_div (js_sum (map totalCost (positions t)))
                                          (js_sum (map quantity (positions t))),
                   totalQuantity = js_sum (map quantity (positions t)),
                   totalCost_r = js_sum (map totalCost (positions t))\<rparr>"
  proof
    assume ne: "positions t \<noteq> []"
    from js_sum_quantities[OF reachable_acceptable[OF r] ne] obtain s where
      s: "0 < s" "js_sum (map quantity (positions t)) = Fin s" by blast
    then have g: "js_gt (js_sum (map quantity (positions t))) (Fin 0)" by (simp add: js_gt_def)
    show "calculateAveragePrice t =
              Inr \<lparr>averagePrice = js_div (js_sum (map totalCost (positions t)))
                                          (js_sum (map quantity (positions t))),
                   totalQuantity = js_sum (map quantity (positions t)),
                   totalCost_r = js_sum (map totalCost (positions t))\<rparr>"
      using ne g by (simp add: calculateAveragePrice_def Let_def foldl_totals)
  qed
  have p4: "\<forall>c q p rec t'. addPosition c q p t = Inr (rec, t') \<longrightarrow>
              quantity rec = parseFloat q \<and> price rec = parseFloat p
            \<and> fee rec = js_mul (price rec) (makerFeeRate c)
            \<and> actualCost rec = js_add (price rec) (fee rec)
            \<and> totalCost rec = js_mul (quantity rec) (actualCost rec)
            \<and> positions t' = positions t @ [rec]"
  proof (intro allI impI)
    fix c q p rec t'
    assume "addPosition c q p t = Inr (rec, t')"
    from addPosition_Inr[OF this]
    show "quantity rec = parseFloat q \<and> price rec = parseFloat p
            \<and> fee rec = js_mul (price rec) (makerFeeRate c)
            \<and> actualCost rec = js_add (price rec) (fee rec)
            \<and> totalCost rec = js_mul (quantity rec) (actualCost rec)
            \<and> positions t' = positions t @ [rec]"
      by (simp add: recreate_def)
  qed
  show ?thesis by (rule conjI[OF p1 conjI[OF p2 conjI[OF p3 p4]]])
qed

theorem calculateAveragePrice_sums_witness:
  "\<exists>r1 t1 r2 t2.
      addPosition (defaultConfig\<lparr>makerFeeRate := Fin 0\<rparr>) (JNum (Fin 1)) (JStr ''100'')
        \<lparr>positions = [], clock = (\<lambda>n. int n), reads = 0\<rparr> = Inr (r1, t1)
    \<and> addPosition (defaultConfig\<lparr>makerFeeRate := Fin 0\<rparr>) (JNum (Fin 1)) (JNum (Fin 200)) t1
        = Inr (r2, t2)
    \<and> reachable t2 \<and> positions t2 \<noteq> []
    \<and> calculateAveragePrice t2
        = Inr \<lparr>averagePrice = Fin 150, totalQuantity = Fin 2, totalCost_r = Fin 300\<rparr>
    \<and> price r1 = Fin 100 \<and> totalCost r2 = Fin 200"
proof -
  let ?c = "defaultConfig\<lparr>makerFeeRate := Fin 0\<rparr>"
  let ?t0 = "\<lparr>positions = [], clock = (\<lambda>n. int n), reads = 0\<rparr>"
  let ?r1 = "recreate (Fin 0) 0 (Fin 1) (Fin 100)"
  let ?t1 = "\<lparr>positions = [?r1], clock = (\<lambda>n. int n), reads = Suc 0\<rparr>"
  let ?r2 = "recreate (Fin 0) 1 (Fin 1) (Fin 200)"
  let ?t2 = "\<lparr>positions = [?r1, ?r2], clock = (\<lambda>n. int n), reads = Suc (Suc 0)\<rparr>"
  have s100: "parseFloat_str ''100'' = Fin 100" "stringToNumber ''100'' = Fin 100"
    by (simp_all add: parseFloat_str_def stringToNumber_def scanNonDecimal_def scanDecimal_def
          scanUnsigned_def scanExponent_def isWS_def isDigit_def digitsValue_def)
  have a1: "addPosition ?c (JNum (Fin 1)) (JStr ''100'') ?t0 = Inr (?r1, ?t1)"
    by (simp add: addPosition_def Let_def isEmpty_def isValidNumber_def isPositive_def
          isExtremeValue_def js_gt_def s100 recreate_def defaultConfig_def)
  have a2: "addPosition ?c (JNum (Fin 1)) (JNum (Fin 200)) ?t1 = Inr (?r2, ?t2)"
    by (simp add: addPosition_def Let_def recreate_def defaultConfig_def)
  have r0: "reachable ?t0" by (rule reachable.start)
  have r1: "reachable ?t1" by (rule reachable.add[OF r0 a1])
  have r2: "reachable ?t2" by (rule reachable.add[OF r1 a2])
  have ne: "positions ?t2 \<noteq> []" by simp
  from calculateAveragePrice_sums[OF r2] ne
  have avg: "calculateAveragePrice ?t2
        = Inr \<lparr>averagePrice = Fin 150, totalQuantity = Fin 2, totalCost_r = Fin 300\<rparr>"
    by (simp add: recreate_def)
  from calculateAveragePrice_sums[OF r0] a1
  have f1: "price ?r1 = Fin 100" by (simp add: recreate_def)
  have f2: "totalCost ?r2 = Fin 200" by (simp add: recreate_def)
  show ?thesis using a1 a2 r2 ne avg f1 f2 by blast
qed

subsection \<open>Change of the maker fee rate\<close>

lemma setMakerFeeRate_trackerSystem:
  assumes "\<not> isNaN (parseFloat r)" "\<not> js_lt (parseFloat r) (Fin 0)"
  shows "conf (setMakerFeeRate r (trackerSystem c t))
           = c\<lparr>makerFeeRate := js_div (parseFloat r) (Fin 100)\<rparr>"
    and "env (setMakerFeeRate r (trackerSystem c t))
           = readdAll (c\<lparr>makerFeeRate := js_div (parseFloat r) (Fin 100)\<rparr>) (positions t)
               \<lparr>app = t\<lparr>positions := []\<rparr>, console = []\<rparr>"
  using assms
  by (simp_all add: setMakerFeeRate_def Let_def trackerSystem_def notifyListeners_def
        invoke_def averagePriceListener_def)

lemma map_recreate_fields:
  "map quantity (map (\<lambda>(k, p). recreate rate (f k) (quantity p) (price p)) (enumerate n xs))
     = map quantity xs"
  "map price (map (\<lambda>(k, p). recreate rate (f k) (quantity p) (price p)) (enumerate n xs))
     = map price xs"
  by (induction xs arbitrary: n) (simp_all add: recreate_def)

text \<open>
  Claim C5.  Take a system whose listener is the one of the average price
  module, and a call of \<open>setMakerFeeRate\<close> that is accepted.  Afterwards the
  list holds, for every old record that can be added again and in the old order,
  the record made from its quantity and price under the new rate, with a new
  reading of the clock as id: quantities and prices are those of the old
  records, fee, actual cost and total cost are computed with the new rate.
  For every old record that cannot be added again (these are the records for
  which \<open>addPosition\<close> raises) one error is printed, and the records after it
  are still processed.  In a state that the module can reach no record is
  dropped.
\<close>

theorem makerFeeRate_recalculates:
  assumes acc: "\<not> isNaN (parseFloat r)" "\<not> js_lt (parseFloat r) (Fin 0)"
  shows "let rate = js_div (parseFloat r) (Fin 100);
             sys' = setMakerFeeRate r (trackerSystem c t);
             kept = filter acceptable (positions t)
         in makerFeeRate (conf sys') = rate
          \<and> positions (app (env sys'))
              = map (\<lambda>(k, p). recreate rate (clock t k) (quantity p) (price p))
                    (enumerate (reads t) kept)
          \<and> map quantity (positions (app (env sys'))) = map quantity kept
          \<and> map price (positions (app (env sys'))) = map price kept
          \<and> (\<exists>errs. console (env sys') = map RecalcError errs
                   \<and> length errs = length (filter (\<lambda>p. \<not> acceptable p) (positions t)))
          \<and> (\<forall>p u. acceptable p =
                 (\<exists>res. addPosition (conf sys') (JNum (quantity p)) (JNum (price p)) u = Inr res))
          \<and> (reachable t \<longrightarrow> kept = positions t)"
proof -
  define rate where "rate = js_div (parseFloat r) (Fin 100)"
  define sys' where "sys' = setMakerFeeRate r (trackerSystem c t)"
  define kept where "kept = filter acceptable (positions t)"
  let ?e0 = "\<lparr>app = t\<lparr>positions := []\<rparr>, console = []\<rparr>"
  from setMakerFeeRate_trackerSystem[OF acc, of c t]
  have cf: "conf sys' = c\<lparr>makerFeeRate := rate\<rparr>"
    and ev: "env sys' = readdAll (c\<lparr>makerFeeRate := rate\<rparr>) (positions t) ?e0"
    by (simp_all add: sys'_def rate_def)
  note rr = readdAll_result[of "c\<lparr>makerFeeRate := rate\<rparr>" "positions t" ?e0]
  have p1: "makerFeeRate (conf sys') = rate" by (simp add: cf)
  have p2: "positions (app (env sys'))
              = map (\<lambda>(k, p). recreate rate (clock t k) (quantity p) (price p))
                    (enumerate (reads t) kept)"
    using rr by (simp add: ev kept_def)
  have p3: "map quantity (positions (app (env sys'))) = map quantity kept"
    unfolding p2 by (rule map_recreate_fields)
  have p4: "map price (positions (app (env sys'))) = map price kept"
    unfolding p2 by (rule map_recreate_fields)
  have p5: "\<exists>errs. console (env sys') = map RecalcError errs
                   \<and> length errs = length (filter (\<lambda>p. \<not> acceptable p) (positions t))"
    using rr by (simp add: ev)
  have p6: "\<forall>p u. acceptable p =
                 (\<exists>res. addPosition (conf sys') (JNum (quantity p)) (JNum (price p)) u = Inr res)"
  proof (intro allI)
    fix p u
    show "acceptable p =
                 (\<exists>res. addPosition (conf sys') (JNum (quantity p)) (JNum (price p)) u = Inr res)"
    proof (cases "acceptable p")
      case True
      then have "inBounds (quantity p)" "inBounds (price p)" by (simp_all add: acceptable_def)
      from addPosition_acceptable[OF this] True show ?thesis by simp
    next
      case False
      then have "\<not> (inBounds (quantity p) \<and> inBounds (price p))" by (simp add: acceptable_def)
      from addPosition_rejected[OF this, of "conf sys'" u] False show ?thesis by auto
    qed
  qed
  have p7: "reachable t \<longrightarrow> kept = positions t"
  proof
    assume "reachable t"
    from reachable_acceptable[OF this] show "kept = positions t"
      by (simp add: kept_def list_all_iff)
  qed
  have "makerFeeRate (conf sys') = rate
          \<and> positions (app (env sys'))
              = map (\<lambda>(k, p). recreate rate (clock t k) (quantity p) (price p))
                    (enumerate (reads t) kept)
          \<and> map quantity (positions (app (env sys'))) = map quantity kept
          \<and> map price (positions (app (env sys'))) = map price kept
          \<and> (\<exists>errs. console (env sys') = map RecalcError errs
                   \<and> length errs = length (filter (\<lambda>p. \<not> acceptable p) (positions t)))
          \<and> (\<forall>p u. acceptable p =
                 (\<exists>res. addPosition (conf sys') (JNum (quantity p)) (JNum (price p)) u = Inr res))
          \<and> (reachable t \<longrightarrow> kept = positions t)"
    by (rule conjI[OF p1 conjI[OF p2 conjI[OF p3 conjI[OF p4 conjI[OF p5 conjI[OF p6 p7]]]]]])
  then show ?thesis unfolding Let_def rate_def sys'_def kept_def .
qed

theorem makerFeeRate_recalculates_witness:
  "positions (app (env (setMakerFeeRate (JNum (Fin 1))
      (trackerSystem defaultConfig
         \<lparr>positions = [recreate (Fin 0) 0 (Fin 1) (Fin 100), recreate (Fin 0) 1 NaN (Fin 5),
                        recreate (Fin 0) 1 (Fin 1) (Fin 200)],
          clock = (\<lambda>n. int n), reads = 2\<rparr>))))
   = [\<lparr>id' = 2, quantity = Fin 1, price = Fin 100, fee = Fin 1, actualCost = Fin 101,
       totalCost = Fin 101\<rparr>,
      \<lparr>id' = 3, quantity = Fin 1, price = Fin 200, fee = Fin 2, actualCost = Fin 202,
       totalCost = Fin 202\<rparr>]
   \<and> length (console (env (setMakerFeeRate (JNum (Fin 1))
      (trackerSystem defaultConfig
         \<lparr>positions = [recreate (Fin 0) 0 (Fin 1) (Fin 100), recreate (Fin 0) 1 NaN (Fin 5),
                        recreate (Fin 0) 1 (Fin 1) (Fin 200)],
          clock = (\<lambda>n. int n), reads = 2\<rparr>)))) = 1"
proof -
  let ?t = "\<lparr>positions = [recreate (Fin 0) 0 (Fin 1) (Fin 100), recreate (Fin 0) 1 NaN (Fin 5),
                        recreate (Fin 0) 1 (Fin 1) (Fin 200)],
          clock = (\<lambda>n. int n), reads = 2\<rparr>"
  have h: "\<not> isNaN (parseFloat (JNum (Fin 1)))" "\<not> js_lt (parseFloat (JNum (Fin 1))) (Fin 0)"
    by simp_all
  have k: "filter acceptable (positions ?t)
             = [recreate (Fin 0) 0 (Fin 1) (Fin 100), recreate (Fin 0) 1 (Fin 1) (Fin 200)]"
    "filter (\<lambda>p. \<not> acceptable p) (positions ?t) = [recreate (Fin 0) 1 NaN (Fin 5)]"
    by simp_all
  note w = makerFeeRate_recalculates[OF h, of defaultConfig ?t, unfolded Let_def k]
  from w have a: "positions (app (env (setMakerFeeRate (JNum (Fin 1)) (trackerSystem defaultConfig ?t))))
              = map (\<lambda>(k, p). recreate (js_div (parseFloat (JNum (Fin 1))) (Fin 100)) (clock ?t k) (quantity p) (price p))
                    (enumerate (reads ?t) [recreate (Fin 0) 0 (Fin 1) (Fin 100), recreate (Fin 0) 1 (Fin 1) (Fin 200)])"
    by (rule conjunct1[OF conjunct2])
  from w have "\<exists>errs. console (env (setMakerFeeRate (JNum (Fin 1)) (trackerSystem defaultConfig ?t))) = map RecalcError errs
                   \<and> length errs = length [recreate (Fin 0) 1 NaN (Fin 5)]"
    by (rule conjunct1[OF conjunct2[OF conjunct2[OF conjunct2[OF conjunct2]]]])
  then have b: "length (console (env (setMakerFeeRate (JNum (Fin 1)) (trackerSystem defaultConfig ?t)))) = 1"
    by auto
  have c: "map (\<lambda>(k, p). recreate (js_div (parseFloat (JNum (Fin 1))) (Fin 100)) (clock ?t k) (quantity p) (price p))
                    (enumerate (reads ?t) [recreate (Fin 0) 0 (Fin 1) (Fin 100), recreate (Fin 0) 1 (Fin 1) (Fin 200)])
      = [\<lparr>id' = 2, quantity = Fin 1, price = Fin 100, fee = Fin 1, actualCost = Fin 101,
       totalCost = Fin 101\<rparr>,
      \<lparr>id' = 3, quantity = Fin 1, price = Fin 200, fee = Fin 2, actualCost = Fin 202,
       totalCost = Fin 202\<rparr>]"
    by (simp add: recreate_def)
  from a b c show ?thesis by simp
qed

subsection \<open>Ids of the records\<close>

text \<open>
  Claim C9 says that the id of a record is unique in the list and greater than
  the ids given before.  The id is the reading of the clock in milliseconds.
  Here two records are added within the same millisecond, as the listener
  above does when it adds all records again: both get the same id, the ids of
  the list are not distinct, and \<open>removePosition\<close> with the id of one of them
  removes both.
\<close>

theorem same_millisecond_ids:
  "\<exists>r1 t1 r2 t2.
      addPosition defaultConfig (JNum (Fin 1)) (JNum (Fin 100))
        \<lparr>positions = [], clock = (\<lambda>n. 1700000000000), reads = 0\<rparr> = Inr (r1, t1)
    \<and> addPosition defaultConfig (JNum (Fin 1)) (JNum (Fin 200)) t1 = Inr (r2, t2)
    \<and> reachable t2
    \<and> length (positions t2) = 2
    \<and> id' r1 = id' r2
    \<and> \<not> distinct (map id' (positions t2))
    \<and> positions (removePosition (id' r2) t2) = []"
proof -
  let ?k = "\<lambda>n::nat. 1700000000000 :: int"
  let ?t0 = "\<lparr>positions = [], clock = ?k, reads = 0\<rparr>"
  let ?r1 = "recreate (Fin (2 / 10000)) 1700000000000 (Fin 1) (Fin 100)"
  let ?t1 = "\<lparr>positions = [?r1], clock = ?k, reads = Suc 0\<rparr>"
  let ?r2 = "recreate (Fin (2 / 10000)) 1700000000000 (Fin 1) (Fin 200)"
  let ?t2 = "\<lparr>positions = [?r1, ?r2], clock = ?k, reads = Suc (Suc 0)\<rparr>"
  have a1: "addPosition defaultConfig (JNum (Fin 1)) (JNum (Fin 100)) ?t0 = Inr (?r1, ?t1)"
    by (simp add: addPosition_def Let_def recreate_def defaultConfig_def)
  have a2: "addPosition defaultConfig (JNum (Fin 1)) (JNum (Fin 200)) ?t1 = Inr (?r2, ?t2)"
    by (simp add: addPosition_def Let_def recreate_def defaultConfig_def)
  have r2: "reachable ?t2"
    by (rule reachable.add[OF reachable.add[OF reachable.start a1] a2])
  have rest: "length (positions ?t2) = 2" "id' ?r1 = id' ?r2"
    "\<not> distinct (map id' (positions ?t2))" "positions (removePosition (id' ?r2) ?t2) = []"
    by (simp_all add: recreate_def removePosition_def)
  show ?thesis using a1 a2 r2 rest by blast
qed

end
